theory Spec2Isabelle
  imports Complex_Main "HOL-Library.Sublist" "HOL-Library.Product_Lexorder" "HOL-Library.Option_ord"
begin

section \<open>Python values used by the matching service\<close>

text \<open>
  The service is \<^verbatim>\<open>services/matching_service.py\<close>. It reads donors and blood requests
  through two repositories (\<^verbatim>\<open>repositories/*.py\<close>) whose rows are the pydantic models of
  \<^verbatim>\<open>models/*.py\<close>. Python \<^verbatim>\<open>str\<close> is modelled as \<open>string\<close> restricted to ASCII text,
  Python \<^verbatim>\<open>int\<close> as \<open>int\<close>, and the \<^verbatim>\<open>float\<close> scores as \<open>real\<close>: every score the
  service adds is a small whole number, so the double arithmetic of the source is exact
  on them. A raised exception is the \<open>Inl\<close> branch of a sum.
\<close>

datatype py_exception =
    MatchingServiceError string
  | DonorRepositoryError string
  | BloodRequestRepositoryError string
  | ZeroDivisionError string
  | OverflowError string

fun py_str :: "py_exception \<Rightarrow> string" where
  "py_str (MatchingServiceError msg) = msg"
| "py_str (DonorRepositoryError msg) = msg"
| "py_str (BloodRequestRepositoryError msg) = msg"
| "py_str (ZeroDivisionError msg) = msg"
| "py_str (OverflowError msg) = msg"

text \<open>
  \<^verbatim>\<open>except Exception as e: raise MatchingServiceError(f"<prefix>{str(e)}")\<close>, the only
  handler of \<^verbatim>\<open>get_compatible_blood_groups\<close> and \<^verbatim>\<open>is_blood_compatible\<close>: whatever is raised
  inside leaves as a \<^verbatim>\<open>MatchingServiceError\<close> whose message is the prefix followed by the
  inner message.
\<close>

fun reraise :: "string \<Rightarrow> py_exception + 'a \<Rightarrow> py_exception + 'a" where
  "reraise pre (Inl e) = Inl (MatchingServiceError (pre @ py_str e))"
| "reraise pre (Inr v) = Inr v"

text \<open>
  The two handlers that end every asynchronous method of the service:
  \<^verbatim>\<open>except (DonorRepositoryError, BloodRequestRepositoryError) as e\<close> raises
  \<^verbatim>\<open>MatchingServiceError(f"Failed to ...: {str(e)}")\<close> with the method's own wording, and
  \<^verbatim>\<open>except Exception as e\<close> raises \<^verbatim>\<open>MatchingServiceError(f"Unexpected error: {str(e)}")\<close>.
\<close>

fun is_repository_error :: "py_exception \<Rightarrow> bool" where
  "is_repository_error (DonorRepositoryError msg) = True"
| "is_repository_error (BloodRequestRepositoryError msg) = True"
| "is_repository_error e = False"

fun service_except :: "string \<Rightarrow> py_exception + 'a \<Rightarrow> py_exception + 'a" where
  "service_except failed (Inl e) =
     Inl (MatchingServiceError
            ((if is_repository_error e then failed else ''Unexpected error: '') @ py_str e))"
| "service_except failed (Inr v) = Inr v"

text \<open>
  \<^verbatim>\<open>str.lower()\<close> on ASCII text, and SQLite's \<^verbatim>\<open>LOWER\<close> on any text: the letters A to Z
  are mapped, all else is kept. Python folds further letters outside ASCII, so what is
  proved about the value of the scorer's city test is proved for ASCII city names.
\<close>

definition lower_char :: "char \<Rightarrow> char" where
  "lower_char c =
     (case map_of (zip ''ABCDEFGHIJKLMNOPQRSTUVWXYZ'' ''abcdefghijklmnopqrstuvwxyz'') c of
        None \<Rightarrow> c
      | Some l \<Rightarrow> l)"

definition lower :: "string \<Rightarrow> string" where
  "lower s = map lower_char s"

text \<open>\<^verbatim>\<open>needle in haystack\<close> on strings.\<close>

fun contains :: "string \<Rightarrow> string \<Rightarrow> bool" where
  "contains needle [] = (needle = [])"
| "contains needle (c # cs) = (prefix needle (c # cs) \<or> contains needle cs)"

text \<open>\<^verbatim>\<open>str(n)\<close> for an integer, as the f-strings of the error messages format it.\<close>

definition digit_char :: "nat \<Rightarrow> char" where
  "digit_char d = ''0123456789'' ! (d mod 10)"

fun str_nat :: "nat \<Rightarrow> string" where
  "str_nat n = (if n < 10 then [digit_char n] else str_nat (n div 10) @ [digit_char (n mod 10)])"

declare str_nat.simps [simp del]

definition str_int :: "int \<Rightarrow> string" where
  "str_int i = (if i < 0 then CHR ''-'' # str_nat (nat (- i)) else str_nat (nat i))"

text \<open>\<^verbatim>\<open>d.get(key, default)\<close> on a dict literal, kept as an association list.\<close>

definition dict_get :: "('k \<times> 'v) list \<Rightarrow> 'k \<Rightarrow> 'v \<Rightarrow> 'v" where
  "dict_get d k dflt = (case map_of d k of None \<Rightarrow> dflt | Some v \<Rightarrow> v)"

text \<open>
  \<^verbatim>\<open>xs[:n]\<close>: a non-negative bound keeps the first \<open>n\<close> entries, a negative bound counts
  from the end and keeps all but the last \<open>-n\<close>.
\<close>

definition py_slice_to :: "'a list \<Rightarrow> int \<Rightarrow> 'a list" where
  "py_slice_to xs n =
     (if 0 \<le> n then take (nat n) xs else take (length xs - nat (- n)) xs)"

text \<open>
  \<^verbatim>\<open>xs.sort(key=k, reverse=True)\<close>: CPython reverses the list, sorts it stably in
  ascending key order and reverses it again, so equal keys keep their original order.
\<close>

definition py_sort_reverse :: "('a \<Rightarrow> 'k::linorder) \<Rightarrow> 'a list \<Rightarrow> 'a list" where
  "py_sort_reverse k xs = rev (sort_key k (rev xs))"

text \<open>
  Float arithmetic. A Python \<^verbatim>\<open>float\<close> is a double; it is modelled by the real number it
  denotes. Every basic operation returns the exact result rounded to a double. The
  rounding belongs to the language, not to the repository, and is a parameter \<open>rnd\<close> of
  the definitions that divide or multiply; overflow does not arise on the counts they are
  applied to.

  \<^verbatim>\<open>a / b\<close> on integers is true division: it raises on a zero divisor and returns the
  rounded quotient otherwise. \<^verbatim>\<open>x * n\<close> on a float and a small integer is the rounded
  product.
\<close>

definition py_truediv :: "(real \<Rightarrow> real) \<Rightarrow> int \<Rightarrow> int \<Rightarrow> py_exception + real" where
  "py_truediv rnd a b =
     (if b = 0 then Inl (ZeroDivisionError ''division by zero'')
      else Inr (rnd (real_of_int a / real_of_int b)))"

definition py_float_mul_int :: "(real \<Rightarrow> real) \<Rightarrow> real \<Rightarrow> int \<Rightarrow> real" where
  "py_float_mul_int rnd x n = rnd (x * real_of_int n)"

text \<open>
  Binding an integer as a parameter of an SQLite statement: SQLite integers are signed
  64-bit, and the driver raises for a Python integer outside that range.
\<close>

definition sqlite_bind_int :: "int \<Rightarrow> py_exception + int" where
  "sqlite_bind_int i =
     (if - (2 ^ 63) \<le> i \<and> i < 2 ^ 63 then Inr i
      else Inl (OverflowError ''Python int too large to convert to SQLite INTEGER''))"

section \<open>Models\<close>

text \<open>
  \<^verbatim>\<open>models/donor.py\<close> and \<^verbatim>\<open>models/blood_request.py\<close>. Timestamps are integers (a point
  in time); \<^verbatim>\<open>None\<close> is \<open>None\<close>.
\<close>

record Donor =
  donor_id :: "int option"
  name :: string
  blood_group :: string
  city :: string
  contact_number :: string
  email :: "string option"
  created_at :: "int option"

record BloodRequest =
  request_id :: "int option"
  patient_name :: string
  blood_group :: string
  city :: string
  urgency :: string
  hospital_name :: "string option"
  contact_number :: string
  status :: string
  created_at :: "int option"

text \<open>The validators of both models accept exactly these values.\<close>

definition valid_blood_groups :: "string list" where
  "valid_blood_groups = [''A+'', ''A-'', ''B+'', ''B-'', ''AB+'', ''AB-'', ''O+'', ''O-'']"

definition validate_blood_group :: "string \<Rightarrow> bool" where
  "validate_blood_group v = (v \<in> set valid_blood_groups)"

definition valid_urgency_levels :: "string list" where
  "valid_urgency_levels = [''Low'', ''Medium'', ''High'', ''Critical'']"

definition validate_urgency :: "string \<Rightarrow> bool" where
  "validate_urgency v = (v \<in> set valid_urgency_levels)"

definition valid_statuses :: "string list" where
  "valid_statuses = [''Active'', ''Fulfilled'']"

definition validate_status :: "string \<Rightarrow> bool" where
  "validate_status v = (v \<in> set valid_statuses)"

section \<open>Compatibility model\<close>

text \<open>
  \<^verbatim>\<open>_build_compatibility_map\<close>: a dict from recipient group to the set of donor groups.
  Each set is kept as a duplicate-free list in the order of the literal; Python iterates
  a set in hash order, which only decides the order of records with equal sort keys.
\<close>

definition build_compatibility_map :: "(string \<times> string list) list" where
  "build_compatibility_map =
     [(''A+'', [''A+'', ''A-'', ''O+'', ''O-'']),
      (''A-'', [''A-'', ''O-'']),
      (''B+'', [''B+'', ''B-'', ''O+'', ''O-'']),
      (''B-'', [''B-'', ''O-'']),
      (''AB+'', [''A+'', ''A-'', ''B+'', ''B-'', ''AB+'', ''AB-'', ''O+'', ''O-'']),
      (''AB-'', [''A-'', ''B-'', ''AB-'', ''O-'']),
      (''O+'', [''O+'', ''O-'']),
      (''O-'', [''O-''])]"

definition get_compatible_blood_groups :: "string \<Rightarrow> py_exception + string list" where
  "get_compatible_blood_groups recipient_blood_group =
     reraise ''Failed to get compatible blood groups: ''
       (case map_of build_compatibility_map recipient_blood_group of
          None \<Rightarrow> Inl (MatchingServiceError (''Invalid blood group: '' @ recipient_blood_group))
        | Some groups \<Rightarrow> Inr groups)"

definition is_blood_compatible :: "string \<Rightarrow> string \<Rightarrow> py_exception + bool" where
  "is_blood_compatible donor_blood_group recipient_blood_group =
     reraise ''Failed to check blood compatibility: ''
       (case get_compatible_blood_groups recipient_blood_group of
          Inl e \<Rightarrow> Inl e
        | Inr compatible_groups \<Rightarrow> Inr (donor_blood_group \<in> set compatible_groups))"

section \<open>Scorer\<close>

definition urgency_bonus :: "(string \<times> real) list" where
  "urgency_bonus = [(''Critical'', 10), (''High'', 7), (''Medium'', 4), (''Low'', 1)]"

definition calculate_match_score :: "Donor \<Rightarrow> BloodRequest \<Rightarrow> bool \<Rightarrow> py_exception + real" where
  "calculate_match_score donor blood_request city_exact_match =
     (case is_blood_compatible (Donor.blood_group donor) (BloodRequest.blood_group blood_request) of
        Inl e \<Rightarrow> Inl e
      | Inr compatible \<Rightarrow>
          (let score = 0;
               score = (if compatible then score + 40 else score);
               score = (if Donor.blood_group donor = BloodRequest.blood_group blood_request
                        then score + 20 else score);
               score = (if lower (Donor.city donor) = lower (BloodRequest.city blood_request)
                        then score + 30 else score);
               score = score + dict_get urgency_bonus (BloodRequest.urgency blood_request) 0
           in Inr (min score 100)))"

definition priority_map :: "(string \<times> int) list" where
  "priority_map = [(''Critical'', 4), (''High'', 3), (''Medium'', 2), (''Low'', 1)]"

definition get_urgency_priority :: "string \<Rightarrow> int" where
  "get_urgency_priority u = dict_get priority_map u 0"

section \<open>Stores\<close>

text \<open>
  The two SQLite tables, as the lists of their rows. The repositories build one
  \<^verbatim>\<open>SELECT\<close> from a dict of filters: a key takes part when it is present and its value is
  truthy, \<^verbatim>\<open>blood_group\<close> and \<^verbatim>\<open>status\<close> compare exactly, \<^verbatim>\<open>city\<close> compares under
  \<^verbatim>\<open>LOWER\<close>, and the rows come back \<^verbatim>\<open>ORDER BY created_at DESC\<close> (\<^verbatim>\<open>NULL\<close> last). The order
  of rows with equal timestamps is left open by SQL; the model keeps table order. The
  \<^verbatim>\<open>limit\<close> and \<^verbatim>\<open>offset\<close> keys are never passed by the matching service.

  A lookup by identifier binds the identifier as an SQL parameter, which fails outside
  the 64-bit range; the repository reports that, like any other exception, as its own
  error with the prefix "Failed to retrieve ...". Failures of the database itself (a
  missing file, a locked table) are outside the model.
\<close>

record Store =
  donors :: "Donor list"
  blood_requests :: "BloodRequest list"

definition filter_given :: "(string \<times> string) list \<Rightarrow> string \<Rightarrow> string option" where
  "filter_given filters key =
     (case map_of filters key of
        None \<Rightarrow> None
      | Some v \<Rightarrow> (if v \<noteq> [] then Some v else None))"

definition sql_order_by_desc :: "('a \<Rightarrow> 'k::linorder) \<Rightarrow> 'a list \<Rightarrow> 'a list" where
  "sql_order_by_desc k rows = rev (sort_key k (rev rows))"

definition DonorRepository_get_by_id :: "Store \<Rightarrow> int \<Rightarrow> py_exception + Donor option" where
  "DonorRepository_get_by_id db i =
     (case sqlite_bind_int i of
        Inl e \<Rightarrow> Inl (DonorRepositoryError (''Failed to retrieve donor: '' @ py_str e))
      | Inr k \<Rightarrow> Inr (find (\<lambda>d. Donor.donor_id d = Some k) (donors db)))"

definition DonorRepository_get_all :: "Store \<Rightarrow> (string \<times> string) list \<Rightarrow> Donor list" where
  "DonorRepository_get_all db filters =
     (let rows = donors db;
          rows = (case filter_given filters ''blood_group'' of
                    None \<Rightarrow> rows
                  | Some v \<Rightarrow> filter (\<lambda>d. Donor.blood_group d = v) rows);
          rows = (case filter_given filters ''city'' of
                    None \<Rightarrow> rows
                  | Some v \<Rightarrow> filter (\<lambda>d. lower (Donor.city d) = lower v) rows)
      in sql_order_by_desc Donor.created_at rows)"

definition search_by_blood_group_and_city :: "Store \<Rightarrow> string \<Rightarrow> string \<Rightarrow> Donor list" where
  "search_by_blood_group_and_city db bg c =
     DonorRepository_get_all db [(''blood_group'', bg), (''city'', c)]"

definition search_by_blood_group :: "Store \<Rightarrow> string \<Rightarrow> Donor list" where
  "search_by_blood_group db bg = DonorRepository_get_all db [(''blood_group'', bg)]"

definition BloodRequestRepository_get_by_id ::
  "Store \<Rightarrow> int \<Rightarrow> py_exception + BloodRequest option" where
  "BloodRequestRepository_get_by_id db i =
     (case sqlite_bind_int i of
        Inl e \<Rightarrow>
          Inl (BloodRequestRepositoryError (''Failed to retrieve blood request: '' @ py_str e))
      | Inr k \<Rightarrow> Inr (find (\<lambda>r. BloodRequest.request_id r = Some k) (blood_requests db)))"

definition BloodRequestRepository_get_all ::
  "Store \<Rightarrow> (string \<times> string) list \<Rightarrow> BloodRequest list" where
  "BloodRequestRepository_get_all db filters =
     (let rows = blood_requests db;
          rows = (case filter_given filters ''blood_group'' of
                    None \<Rightarrow> rows
                  | Some v \<Rightarrow> filter (\<lambda>r. BloodRequest.blood_group r = v) rows);
          rows = (case filter_given filters ''city'' of
                    None \<Rightarrow> rows
                  | Some v \<Rightarrow> filter (\<lambda>r. lower (BloodRequest.city r) = lower v) rows);
          rows = (case filter_given filters ''urgency'' of
                    None \<Rightarrow> rows
                  | Some v \<Rightarrow> filter (\<lambda>r. BloodRequest.urgency r = v) rows);
          rows = (case filter_given filters ''status'' of
                    None \<Rightarrow> rows
                  | Some v \<Rightarrow> filter (\<lambda>r. BloodRequest.status r = v) rows)
      in sql_order_by_desc BloodRequest.created_at rows)"

definition get_active_requests :: "Store \<Rightarrow> BloodRequest list" where
  "get_active_requests db = BloodRequestRepository_get_all db [(''status'', ''Active'')]"

definition get_requests_by_blood_group_and_city ::
  "Store \<Rightarrow> string \<Rightarrow> string \<Rightarrow> BloodRequest list" where
  "get_requests_by_blood_group_and_city db bg c =
     BloodRequestRepository_get_all db [(''blood_group'', bg), (''city'', c)]"

section \<open>Match records\<close>

text \<open>
  The dicts built by \<^verbatim>\<open>_create_match_info\<close> and \<^verbatim>\<open>_create_request_match_info\<close>, one
  record per dict. The request's \<^verbatim>\<open>created_at\<close> is kept as the timestamp that the source
  renders with \<^verbatim>\<open>isoformat()\<close>.
\<close>

record DonorInfo =
  donor_id :: "int option"
  name :: string
  blood_group :: string
  city :: string
  contact_number :: string
  email :: "string option"

record RequestInfo =
  request_id :: "int option"
  patient_name :: string
  blood_group :: string
  city :: string
  urgency :: string
  hospital_name :: "string option"
  contact_number :: string
  created_at :: "int option"

record MatchDetails =
  donor_blood_group :: string
  required_blood_group :: string
  donor_city :: string
  required_city :: string
  request_urgency :: string

record DonorMatch =
  donor :: DonorInfo
  match_score :: real
  blood_compatible :: bool
  city_match :: bool
  exact_blood_match :: bool
  match_details :: MatchDetails

record RequestMatch =
  request :: RequestInfo
  match_score :: real
  urgency_priority :: int
  blood_compatible :: bool
  city_match :: bool
  exact_blood_match :: bool
  match_details :: MatchDetails

definition make_match_details :: "Donor \<Rightarrow> BloodRequest \<Rightarrow> MatchDetails" where
  "make_match_details d r =
     \<lparr> donor_blood_group = Donor.blood_group d,
       required_blood_group = BloodRequest.blood_group r,
       donor_city = Donor.city d,
       required_city = BloodRequest.city r,
       request_urgency = BloodRequest.urgency r \<rparr>"

definition create_match_info :: "Donor \<Rightarrow> BloodRequest \<Rightarrow> bool \<Rightarrow> py_exception + DonorMatch" where
  "create_match_info d blood_request city_exact_match =
     (case calculate_match_score d blood_request city_exact_match of
        Inl e \<Rightarrow> Inl e
      | Inr score \<Rightarrow>
          (case is_blood_compatible (Donor.blood_group d) (BloodRequest.blood_group blood_request) of
             Inl e \<Rightarrow> Inl e
           | Inr compatible \<Rightarrow>
               Inr \<lparr> donor = \<lparr> DonorInfo.donor_id = Donor.donor_id d,
                                DonorInfo.name = Donor.name d,
                                DonorInfo.blood_group = Donor.blood_group d,
                                DonorInfo.city = Donor.city d,
                                DonorInfo.contact_number = Donor.contact_number d,
                                DonorInfo.email = Donor.email d \<rparr>,
                     DonorMatch.match_score = score,
                     DonorMatch.blood_compatible = compatible,
                     DonorMatch.city_match =
                       (lower (Donor.city d) = lower (BloodRequest.city blood_request)),
                     DonorMatch.exact_blood_match =
                       (Donor.blood_group d = BloodRequest.blood_group blood_request),
                     DonorMatch.match_details = make_match_details d blood_request \<rparr>))"

definition create_request_match_info ::
  "BloodRequest \<Rightarrow> Donor \<Rightarrow> bool \<Rightarrow> py_exception + RequestMatch" where
  "create_request_match_info blood_request d city_exact_match =
     (case calculate_match_score d blood_request city_exact_match of
        Inl e \<Rightarrow> Inl e
      | Inr score \<Rightarrow>
          (let priority = get_urgency_priority (BloodRequest.urgency blood_request) in
           case is_blood_compatible (Donor.blood_group d) (BloodRequest.blood_group blood_request) of
             Inl e \<Rightarrow> Inl e
           | Inr compatible \<Rightarrow>
               Inr \<lparr> request = \<lparr> RequestInfo.request_id = BloodRequest.request_id blood_request,
                                  RequestInfo.patient_name = BloodRequest.patient_name blood_request,
                                  RequestInfo.blood_group = BloodRequest.blood_group blood_request,
                                  RequestInfo.city = BloodRequest.city blood_request,
                                  RequestInfo.urgency = BloodRequest.urgency blood_request,
                                  RequestInfo.hospital_name = BloodRequest.hospital_name blood_request,
                                  RequestInfo.contact_number = BloodRequest.contact_number blood_request,
                                  RequestInfo.created_at = BloodRequest.created_at blood_request \<rparr>,
                     RequestMatch.match_score = score,
                     RequestMatch.urgency_priority = priority,
                     RequestMatch.blood_compatible = compatible,
                     RequestMatch.city_match =
                       (lower (Donor.city d) = lower (BloodRequest.city blood_request)),
                     RequestMatch.exact_blood_match =
                       (Donor.blood_group d = BloodRequest.blood_group blood_request),
                     RequestMatch.match_details = make_match_details d blood_request \<rparr>))"

section \<open>Match finder\<close>

text \<open>\<^verbatim>\<open>if limit: xs = xs[:limit]\<close>: \<^verbatim>\<open>None\<close> and \<^verbatim>\<open>0\<close> are both falsy.\<close>

definition apply_limit :: "int option \<Rightarrow> 'a list \<Rightarrow> 'a list" where
  "apply_limit limit xs =
     (case limit of
        None \<Rightarrow> xs
      | Some n \<Rightarrow> (if n \<noteq> 0 then py_slice_to xs n else xs))"

text \<open>The inner loop of \<^verbatim>\<open>find_matching_donors\<close>: one record appended per fetched donor.\<close>

fun append_match_infos ::
  "BloodRequest \<Rightarrow> bool \<Rightarrow> Donor list \<Rightarrow> DonorMatch list \<Rightarrow> py_exception + DonorMatch list" where
  "append_match_infos blood_request city_exact_match [] matching_donors = Inr matching_donors"
| "append_match_infos blood_request city_exact_match (d # ds) matching_donors =
     (case create_match_info d blood_request city_exact_match of
        Inl e \<Rightarrow> Inl e
      | Inr match_info \<Rightarrow>
          append_match_infos blood_request city_exact_match ds (matching_donors @ [match_info]))"

text \<open>The outer loop: one store query per compatible blood group.\<close>

fun collect_matching_donors ::
  "Store \<Rightarrow> BloodRequest \<Rightarrow> bool \<Rightarrow> string list \<Rightarrow> DonorMatch list \<Rightarrow>
   py_exception + DonorMatch list" where
  "collect_matching_donors db blood_request city_exact_match [] matching_donors =
     Inr matching_donors"
| "collect_matching_donors db blood_request city_exact_match (g # gs) matching_donors =
     (let ds = (if city_exact_match
                then search_by_blood_group_and_city db g (BloodRequest.city blood_request)
                else search_by_blood_group db g)
      in case append_match_infos blood_request city_exact_match ds matching_donors of
           Inl e \<Rightarrow> Inl e
         | Inr matching_donors' \<Rightarrow>
             collect_matching_donors db blood_request city_exact_match gs matching_donors')"

definition find_matching_donors ::
  "Store \<Rightarrow> BloodRequest \<Rightarrow> bool \<Rightarrow> int option \<Rightarrow> py_exception + DonorMatch list" where
  "find_matching_donors db blood_request city_exact_match limit =
     service_except ''Failed to find matching donors: ''
       (case get_compatible_blood_groups (BloodRequest.blood_group blood_request) of
          Inl e \<Rightarrow> Inl e
        | Inr compatible_groups \<Rightarrow>
            (case collect_matching_donors db blood_request city_exact_match compatible_groups [] of
               Inl e \<Rightarrow> Inl e
             | Inr matching_donors \<Rightarrow>
                 Inr (apply_limit limit
                        (py_sort_reverse DonorMatch.match_score matching_donors))))"

definition find_matching_donors_by_request_id ::
  "Store \<Rightarrow> int \<Rightarrow> bool \<Rightarrow> int option \<Rightarrow> py_exception + DonorMatch list" where
  "find_matching_donors_by_request_id db rid city_exact_match limit =
     service_except ''Failed to find matching donors: ''
       (if rid \<le> 0
        then Inl (MatchingServiceError ''Blood request ID must be a positive integer'')
        else (case BloodRequestRepository_get_by_id db rid of
                Inl e \<Rightarrow> Inl e
              | Inr None \<Rightarrow>
                  Inl (MatchingServiceError
                         (''Blood request with ID '' @ str_int rid @ '' not found''))
              | Inr (Some blood_request) \<Rightarrow>
                  (if BloodRequest.status blood_request \<noteq> ''Active'' then Inr []
                   else find_matching_donors db blood_request city_exact_match limit)))"

text \<open>
  \<^verbatim>\<open>[req for req in all_requests if self.is_blood_compatible(...)]\<close>: the comprehension
  stops at the first request on which the test raises.
\<close>

fun compatible_requests :: "string \<Rightarrow> BloodRequest list \<Rightarrow> py_exception + BloodRequest list" where
  "compatible_requests bg [] = Inr []"
| "compatible_requests bg (r # rs) =
     (case is_blood_compatible bg (BloodRequest.blood_group r) of
        Inl e \<Rightarrow> Inl e
      | Inr compatible \<Rightarrow>
          (case compatible_requests bg rs of
             Inl e \<Rightarrow> Inl e
           | Inr rest \<Rightarrow> Inr (if compatible then r # rest else rest)))"

text \<open>The loop of \<^verbatim>\<open>find_requests_for_donor\<close> that builds the records.\<close>

fun append_request_match_infos ::
  "Donor \<Rightarrow> bool \<Rightarrow> BloodRequest list \<Rightarrow> RequestMatch list \<Rightarrow> py_exception + RequestMatch list" where
  "append_request_match_infos d city_exact_match [] matching_requests = Inr matching_requests"
| "append_request_match_infos d city_exact_match (r # rs) matching_requests =
     (case is_blood_compatible (Donor.blood_group d) (BloodRequest.blood_group r) of
        Inl e \<Rightarrow> Inl e
      | Inr compatible \<Rightarrow>
          (if compatible
           then (case create_request_match_info r d city_exact_match of
                   Inl e \<Rightarrow> Inl e
                 | Inr match_info \<Rightarrow>
                     append_request_match_infos d city_exact_match rs
                       (matching_requests @ [match_info]))
           else append_request_match_infos d city_exact_match rs matching_requests))"

definition request_sort_key :: "RequestMatch \<Rightarrow> int \<times> real" where
  "request_sort_key x = (RequestMatch.urgency_priority x, RequestMatch.match_score x)"

definition find_requests_for_donor ::
  "Store \<Rightarrow> Donor \<Rightarrow> bool \<Rightarrow> bool \<Rightarrow> int option \<Rightarrow> py_exception + RequestMatch list" where
  "find_requests_for_donor db d city_exact_match active_only limit =
     service_except ''Failed to find matching requests: ''
       (case (if city_exact_match
              then Inr (get_requests_by_blood_group_and_city db (Donor.blood_group d) (Donor.city d))
              else compatible_requests (Donor.blood_group d)
                     (BloodRequestRepository_get_all db [])) of
          Inl e \<Rightarrow> Inl e
        | Inr requests \<Rightarrow>
            (let requests = (if active_only
                             then filter (\<lambda>req. BloodRequest.status req = ''Active'') requests
                             else requests)
             in case append_request_match_infos d city_exact_match requests [] of
                  Inl e \<Rightarrow> Inl e
                | Inr matching_requests \<Rightarrow>
                    Inr (apply_limit limit
                           (py_sort_reverse request_sort_key matching_requests))))"

definition find_requests_for_donor_by_id ::
  "Store \<Rightarrow> int \<Rightarrow> bool \<Rightarrow> bool \<Rightarrow> int option \<Rightarrow> py_exception + RequestMatch list" where
  "find_requests_for_donor_by_id db did city_exact_match active_only limit =
     service_except ''Failed to find matching requests: ''
       (if did \<le> 0
        then Inl (MatchingServiceError ''Donor ID must be a positive integer'')
        else (case DonorRepository_get_by_id db did of
                Inl e \<Rightarrow> Inl e
              | Inr None \<Rightarrow>
                  Inl (MatchingServiceError (''Donor with ID '' @ str_int did @ '' not found''))
              | Inr (Some d) \<Rightarrow>
                  find_requests_for_donor db d city_exact_match active_only limit))"

text \<open>
  The HTTP layer (\<^verbatim>\<open>api/matching.py\<close>) tells a missing record from any other failure by
  the message: \<^verbatim>\<open>"not found" in str(e).lower()\<close> gives 404, everything else 400.
\<close>

definition is_not_found :: "py_exception \<Rightarrow> bool" where
  "is_not_found e = contains ''not found'' (lower (py_str e))"

section \<open>Statistics aggregator\<close>

record BloodGroupStats =
  active_requests :: int
  available_donors :: int

record UrgencyStats =
  total_requests :: int
  requests_with_matches :: int

text \<open>The result dict, without \<^verbatim>\<open>last_updated\<close> (the wall clock).\<close>

record Statistics =
  total_active_requests :: int
  total_donors :: int
  requests_with_potential_matches :: int
  total_potential_matches :: int
  match_rate :: real
  blood_group_breakdown :: "(string \<times> BloodGroupStats) list"
  urgency_breakdown :: "(string \<times> UrgencyStats) list"

text \<open>
  The first loop: the pair is (\<^verbatim>\<open>requests_with_matches\<close>, \<^verbatim>\<open>total_potential_matches\<close>).
\<close>

fun count_potential_matches ::
  "Store \<Rightarrow> BloodRequest list \<Rightarrow> int \<times> int \<Rightarrow> py_exception + (int \<times> int)" where
  "count_potential_matches db [] acc = Inr acc"
| "count_potential_matches db (r # rs) (with_matches, total_matches) =
     (case find_matching_donors db r False None of
        Inl e \<Rightarrow> Inl e
      | Inr matches \<Rightarrow>
          (if matches \<noteq> []
           then count_potential_matches db rs
                  (with_matches + 1, total_matches + int (length matches))
           else count_potential_matches db rs (with_matches, total_matches)))"

text \<open>The inner loop of the urgency statistics.\<close>

fun count_requests_with_matches ::
  "Store \<Rightarrow> BloodRequest list \<Rightarrow> int \<Rightarrow> py_exception + int" where
  "count_requests_with_matches db [] n = Inr n"
| "count_requests_with_matches db (r # rs) n =
     (case find_matching_donors db r False None of
        Inl e \<Rightarrow> Inl e
      | Inr matches \<Rightarrow>
          count_requests_with_matches db rs (if matches \<noteq> [] then n + 1 else n))"

fun urgency_statistics ::
  "Store \<Rightarrow> BloodRequest list \<Rightarrow> string list \<Rightarrow> (string \<times> UrgencyStats) list \<Rightarrow>
   py_exception + (string \<times> UrgencyStats) list" where
  "urgency_statistics db active [] urgency_stats = Inr urgency_stats"
| "urgency_statistics db active (u # us) urgency_stats =
     (let urgent_requests = filter (\<lambda>r. BloodRequest.urgency r = u) active
      in case count_requests_with_matches db urgent_requests 0 of
           Inl e \<Rightarrow> Inl e
         | Inr n \<Rightarrow>
             urgency_statistics db active us
               (urgency_stats @
                  [(u, \<lparr> total_requests = int (length urgent_requests),
                         requests_with_matches = n \<rparr>)]))"

definition blood_group_statistics ::
  "BloodRequest list \<Rightarrow> Donor list \<Rightarrow> (string \<times> BloodGroupStats) list" where
  "blood_group_statistics active all_donors =
     map (\<lambda>g. (g, \<lparr> active_requests =
                       int (length (filter (\<lambda>r. BloodRequest.blood_group r = g) active)),
                     available_donors =
                       int (length (filter (\<lambda>d. Donor.blood_group d = g) all_donors)) \<rparr>))
       (map fst build_compatibility_map)"

text \<open>
  \<^verbatim>\<open>(requests_with_matches / total_active_requests * 100) if total_active_requests > 0 else 0\<close>
\<close>

definition compute_match_rate ::
  "(real \<Rightarrow> real) \<Rightarrow> int \<Rightarrow> int \<Rightarrow> py_exception + real" where
  "compute_match_rate rnd with_matches total_active =
     (if total_active > 0
      then (case py_truediv rnd with_matches total_active of
              Inl e \<Rightarrow> Inl e
            | Inr q \<Rightarrow> Inr (py_float_mul_int rnd q 100))
      else Inr 0)"

definition get_matching_statistics ::
  "(real \<Rightarrow> real) \<Rightarrow> Store \<Rightarrow> py_exception + Statistics" where
  "get_matching_statistics rnd db =
     service_except ''Failed to generate matching statistics: ''
       (let active = get_active_requests db;
            all_donors = DonorRepository_get_all db [];
            total_active = int (length active);
            total_d = int (length all_donors)
        in case count_potential_matches db active (0, 0) of
             Inl e \<Rightarrow> Inl e
           | Inr (with_matches, total_matches) \<Rightarrow>
               (let blood_group_stats = blood_group_statistics active all_donors
                in case urgency_statistics db active
                          [''Critical'', ''High'', ''Medium'', ''Low''] [] of
                     Inl e \<Rightarrow> Inl e
                   | Inr urgency_stats \<Rightarrow>
                       (case compute_match_rate rnd with_matches total_active of
                          Inl e \<Rightarrow> Inl e
                        | Inr rate \<Rightarrow>
                            Inr \<lparr> total_active_requests = total_active,
                                  total_donors = total_d,
                                  requests_with_potential_matches = with_matches,
                                  total_potential_matches = total_matches,
                                  match_rate = rate,
                                  blood_group_breakdown = blood_group_stats,
                                  urgency_breakdown = urgency_stats \<rparr>)))"

section \<open>Properties used in the proofs\<close>





text \<open>A donor match that carries the compatibility flag and its 40 points.\<close>

definition good_match :: "DonorMatch \<Rightarrow> bool" where
  "good_match m = (DonorMatch.blood_compatible m \<and> 40 \<le> DonorMatch.match_score m)"

text \<open>A request match whose priority is the one of the urgency it displays.\<close>

definition priority_recorded :: "RequestMatch \<Rightarrow> bool" where
  "priority_recorded m =
     (RequestMatch.urgency_priority m = get_urgency_priority (RequestInfo.urgency (request m)))"

text \<open>The test \<^verbatim>\<open>if matches:\<close> of the statistics loops, on one request.\<close>

definition has_potential_matches :: "Store \<Rightarrow> BloodRequest \<Rightarrow> bool" where
  "has_potential_matches db r =
     (case find_matching_donors db r False None of Inl e \<Rightarrow> False | Inr ms \<Rightarrow> ms \<noteq> [])"

section \<open>Example data\<close>

definition example_donor_1 :: Donor where
  "example_donor_1 =
     \<lparr> Donor.donor_id = Some 1, name = ''Asha Rao'', blood_group = ''O-'', city = ''Delhi'',
       contact_number = ''9876543210'', email = None, created_at = Some 100 \<rparr>"

definition example_donor_2 :: Donor where
  "example_donor_2 =
     \<lparr> Donor.donor_id = Some 2, name = ''Ravi Kumar'', blood_group = ''A+'', city = ''delhi'',
       contact_number = ''9876543211'', email = None, created_at = Some 200 \<rparr>"

definition example_donor_3 :: Donor where
  "example_donor_3 =
     \<lparr> Donor.donor_id = Some 3, name = ''Meera Shah'', blood_group = ''B+'', city = ''Mumbai'',
       contact_number = ''9876543212'', email = None, created_at = Some 300 \<rparr>"

definition example_donor_4 :: Donor where
  "example_donor_4 =
     \<lparr> Donor.donor_id = Some 4, name = ''Arun Nair'', blood_group = ''A-'', city = ''Pune'',
       contact_number = ''9876543213'', email = None, created_at = Some 400 \<rparr>"

definition example_request_1 :: BloodRequest where
  "example_request_1 =
     \<lparr> BloodRequest.request_id = Some 1, patient_name = ''Jane Smith'', blood_group = ''A+'',
       city = ''Delhi'', urgency = ''Critical'', hospital_name = None,
       contact_number = ''9876500001'', status = ''Active'', created_at = Some 500 \<rparr>"

definition example_request_2 :: BloodRequest where
  "example_request_2 =
     \<lparr> BloodRequest.request_id = Some 2, patient_name = ''Vikram Das'', blood_group = ''O-'',
       city = ''Delhi'', urgency = ''Low'', hospital_name = None,
       contact_number = ''9876500002'', status = ''Active'', created_at = Some 600 \<rparr>"

definition example_request_3 :: BloodRequest where
  "example_request_3 =
     \<lparr> BloodRequest.request_id = Some 3, patient_name = ''Leela Iyer'', blood_group = ''AB+'',
       city = ''Pune'', urgency = ''Critical'', hospital_name = None,
       contact_number = ''9876500003'', status = ''Fulfilled'', created_at = Some 700 \<rparr>"

definition example_request_4 :: BloodRequest where
  "example_request_4 =
     \<lparr> BloodRequest.request_id = Some 4, patient_name = ''Omar Khan'', blood_group = ''B+'',
       city = ''Mumbai'', urgency = ''High'', hospital_name = None,
       contact_number = ''9876500004'', status = ''Active'', created_at = Some 800 \<rparr>"

definition example_store :: Store where
  "example_store =
     \<lparr> donors = [example_donor_1, example_donor_2, example_donor_3, example_donor_4],
       blood_requests =
         [example_request_1, example_request_2, example_request_3, example_request_4] \<rparr>"

text \<open>The same donors with an empty request table.\<close>

definition example_store_without_requests :: Store where
  "example_store_without_requests =
     \<lparr> donors = [example_donor_1, example_donor_2, example_donor_3, example_donor_4],
       blood_requests = [] \<rparr>"

text \<open>The same requests with the A+ and the B+ donor only: nobody can give to request 2.\<close>

definition example_store_two_donors :: Store where
  "example_store_two_donors =
     \<lparr> donors = [example_donor_2, example_donor_3],
       blood_requests =
         [example_request_1, example_request_2, example_request_3, example_request_4] \<rparr>"

definition empty_store :: Store where
  "empty_store = \<lparr> donors = [], blood_requests = [] \<rparr>"

section \<open>Strings and lists\<close>

lemma contains_prefix: "prefix needle hay \<Longrightarrow> contains needle hay"
  by (cases hay) auto

lemma contains_append: "contains needle (a @ needle @ b)"
  by (induction a) (auto simp: contains_prefix)

lemma lower_append: "lower (a @ b) = lower a @ lower b"
  by (simp add: lower_def)

lemma lower_not_found: "lower ''not found'' = ''not found''"
  by (simp add: lower_def lower_char_def)

lemma is_not_found_msg: "is_not_found (MatchingServiceError (a @ b @ '' not found''))"
proof -
  have "a @ b @ '' not found'' = (a @ b @ '' '') @ ''not found'' @ []" by simp
  then have "lower (a @ b @ '' not found'') = lower (a @ b @ '' '') @ ''not found'' @ []"
    by (metis lower_append lower_not_found append_Nil2)
  then show ?thesis
    unfolding is_not_found_def py_str.simps using contains_append by metis
qed

lemma request_id_message_not_found:
  "\<not> is_not_found
       (MatchingServiceError ''Unexpected error: Blood request ID must be a positive integer'')"
  by (simp add: is_not_found_def lower_def lower_char_def)










lemma apply_limit_neg: "n < 0 \<Longrightarrow> apply_limit (Some n) xs = take (length xs - nat (- n)) xs"
  by (simp add: apply_limit_def py_slice_to_def)

lemma sorted_py_sort_reverse: "sorted_wrt (\<lambda>a b. k b \<le> k a) (py_sort_reverse k xs)"
proof -
  have "sorted (map k (sort_key k (rev xs)))" by simp
  then have "sorted_wrt (\<lambda>a b. k a \<le> k b) (sort_key k (rev xs))"
    by (simp add: sorted_map)
  then show ?thesis
    by (simp add: py_sort_reverse_def sorted_wrt_rev)
qed

lemma set_py_sort_reverse: "set (py_sort_reverse k xs) = set xs"
  by (simp add: py_sort_reverse_def)

lemma set_apply_limit: "set (apply_limit limit xs) \<subseteq> set xs"
  by (auto simp: apply_limit_def py_slice_to_def split: option.splits dest: in_set_takeD)

lemma sorted_apply_limit: "sorted_wrt P xs \<Longrightarrow> sorted_wrt P (apply_limit limit xs)"
  by (auto simp: apply_limit_def py_slice_to_def split: option.splits)

lemma set_sql_order_by_desc: "set (sql_order_by_desc k rows) = set rows"
  by (simp add: sql_order_by_desc_def)

section \<open>Compatibility model: lemmas\<close>

lemma map_of_compat_cases:
  "map_of build_compatibility_map r = Some gs \<Longrightarrow> r \<in> set valid_blood_groups"
  by (auto simp: build_compatibility_map_def valid_blood_groups_def split: if_splits)

lemma get_compatible_valid:
  "validate_blood_group r \<Longrightarrow> \<exists>gs. get_compatible_blood_groups r = Inr gs"
  by (auto simp: validate_blood_group_def valid_blood_groups_def
      get_compatible_blood_groups_def build_compatibility_map_def)

lemma get_compatible_Inr_valid:
  "get_compatible_blood_groups r = Inr gs \<Longrightarrow> validate_blood_group r"
  by (auto simp: get_compatible_blood_groups_def validate_blood_group_def
      split: option.splits dest: map_of_compat_cases)

lemma get_compatible_nonempty_names:
  "get_compatible_blood_groups r = Inr gs \<Longrightarrow> [] \<notin> set gs"
  by (auto simp: get_compatible_blood_groups_def build_compatibility_map_def
      split: option.splits if_splits)

lemma is_blood_compatible_Inr:
  "get_compatible_blood_groups r = Inr gs \<Longrightarrow> is_blood_compatible d r = Inr (d \<in> set gs)"
  by (simp add: is_blood_compatible_def)

lemma is_blood_compatible_total:
  "validate_blood_group r \<Longrightarrow> \<exists>c. is_blood_compatible d r = Inr c"
  using get_compatible_valid[of r] is_blood_compatible_Inr by blast

lemma is_blood_compatible_invalid:
  "\<not> validate_blood_group r \<Longrightarrow> \<exists>e. is_blood_compatible d r = Inl e"
  using get_compatible_Inr_valid[of r]
  by (cases "get_compatible_blood_groups r") (auto simp: is_blood_compatible_def)

lemma urgency_bonus_cases:
  "dict_get urgency_bonus u 0 =
     (if u = ''Critical'' then 10 else if u = ''High'' then 7
      else if u = ''Medium'' then 4 else if u = ''Low'' then 1 else 0)"
  by (simp add: dict_get_def urgency_bonus_def)

lemma urgency_bonus_nonneg: "0 \<le> dict_get urgency_bonus u 0"
  by (simp add: urgency_bonus_cases)

lemma get_urgency_priority_cases:
  "get_urgency_priority u =
     (if u = ''Critical'' then 4 else if u = ''High'' then 3
      else if u = ''Medium'' then 2 else if u = ''Low'' then 1 else 0)"
  by (simp add: get_urgency_priority_def dict_get_def priority_map_def)

lemma calculate_match_score_Inr:
  "get_compatible_blood_groups (BloodRequest.blood_group r) = Inr gs \<Longrightarrow>
   \<exists>s. calculate_match_score d r cem = Inr s \<and> (Donor.blood_group d \<in> set gs \<longrightarrow> 40 \<le> s)"
  using urgency_bonus_nonneg[of "BloodRequest.urgency r"]
  by (simp add: calculate_match_score_def is_blood_compatible_Inr Let_def)

text \<open>
  A request whose blood group is outside the table cannot be scored: the compatibility
  test raises. The validator of \<^verbatim>\<open>BloodRequest\<close> keeps such a request from being built.
\<close>

lemma calculate_match_score_invalid:
  "\<not> validate_blood_group (BloodRequest.blood_group r) \<Longrightarrow>
   \<exists>e. calculate_match_score d r cem = Inl e"
  using is_blood_compatible_invalid[of "BloodRequest.blood_group r" "Donor.blood_group d"]
  by (auto simp: calculate_match_score_def)

section \<open>Scorer and compatibility model: the claims\<close>



lemma example_request_1_valid:
  "validate_blood_group (BloodRequest.blood_group example_request_1)"
  by (simp add: validate_blood_group_def valid_blood_groups_def example_request_1_def)




text \<open>
  C2. On each of the eight canonical recipient groups \<^verbatim>\<open>get_compatible_blood_groups\<close>
  returns exactly the set of the canonical table; every canonical group is a member of
  its own set; the set of AB+ has eight members and the set of O- has one.
\<close>

theorem get_compatible_blood_groups_table:
  "map_sum id set (get_compatible_blood_groups ''A+'') = Inr {''A+'', ''A-'', ''O+'', ''O-''} \<and>
   map_sum id set (get_compatible_blood_groups ''A-'') = Inr {''A-'', ''O-''} \<and>
   map_sum id set (get_compatible_blood_groups ''B+'') = Inr {''B+'', ''B-'', ''O+'', ''O-''} \<and>
   map_sum id set (get_compatible_blood_groups ''B-'') = Inr {''B-'', ''O-''} \<and>
   map_sum id set (get_compatible_blood_groups ''AB+'') =
     Inr {''A+'', ''A-'', ''B+'', ''B-'', ''AB+'', ''AB-'', ''O+'', ''O-''} \<and>
   map_sum id set (get_compatible_blood_groups ''AB-'') = Inr {''A-'', ''B-'', ''AB-'', ''O-''} \<and>
   map_sum id set (get_compatible_blood_groups ''O+'') = Inr {''O+'', ''O-''} \<and>
   map_sum id set (get_compatible_blood_groups ''O-'') = Inr {''O-''} \<and>
   (\<forall>R \<in> set valid_blood_groups.
      \<exists>gs. get_compatible_blood_groups R = Inr gs \<and> R \<in> set gs) \<and>
   (\<exists>gs. get_compatible_blood_groups ''AB+'' = Inr gs \<and> card (set gs) = 8) \<and>
   (\<exists>gs. get_compatible_blood_groups ''O-'' = Inr gs \<and> card (set gs) = 1)"
  by (simp add: valid_blood_groups_def get_compatible_blood_groups_def
      build_compatibility_map_def)

theorem get_compatible_blood_groups_table_witness:
  "''AB-'' \<in> set valid_blood_groups \<and>
   (\<exists>gs. get_compatible_blood_groups ''AB-'' = Inr gs \<and> ''AB-'' \<in> set gs)"
proof -
  have m: "''AB-'' \<in> set valid_blood_groups" by (simp add: valid_blood_groups_def)
  from get_compatible_blood_groups_table have
    "\<forall>R \<in> set valid_blood_groups. \<exists>gs. get_compatible_blood_groups R = Inr gs \<and> R \<in> set gs"
    by blast
  with m show ?thesis by blast
qed

text \<open>
  C7. For every donor group \<open>D\<close> and every canonical recipient group \<open>R\<close>,
  \<^verbatim>\<open>is_blood_compatible\<close> returns true exactly when \<open>D\<close> belongs to the set returned by
  \<^verbatim>\<open>get_compatible_blood_groups\<close> on \<open>R\<close>.
\<close>

theorem is_blood_compatible_membership:
  assumes "R \<in> set valid_blood_groups"
  shows "\<exists>gs. get_compatible_blood_groups R = Inr gs \<and>
              is_blood_compatible D R = Inr (D \<in> set gs)"
proof -
  from assms have "validate_blood_group R" by (simp add: validate_blood_group_def)
  from get_compatible_valid[OF this] obtain gs where
    "get_compatible_blood_groups R = Inr gs" by blast
  then show ?thesis using is_blood_compatible_Inr by blast
qed

theorem is_blood_compatible_membership_witness:
  "''A-'' \<in> set valid_blood_groups \<and>
   is_blood_compatible ''O-'' ''A-'' = Inr True \<and>
   is_blood_compatible ''A+'' ''A-'' = Inr False"
proof -
  have m: "''A-'' \<in> set valid_blood_groups" by (simp add: valid_blood_groups_def)
  have g: "get_compatible_blood_groups ''A-'' = Inr [''A-'', ''O-'']"
    by (simp add: get_compatible_blood_groups_def build_compatibility_map_def)
  from is_blood_compatible_membership[OF m, of "''O-''"]
       is_blood_compatible_membership[OF m, of "''A+''"] g m
  show ?thesis by auto
qed

text \<open>
  C8. The score does not depend on the mode flag: two calls that differ only in
  \<^verbatim>\<open>city_exact_match\<close> return the same result.
\<close>

theorem calculate_match_score_mode_inert:
  "calculate_match_score d r True = calculate_match_score d r False"
  by (simp add: calculate_match_score_def)

section \<open>Lookup by identifier\<close>

lemma sqlite_bind_int_in_range:
  "- (2 ^ 63) \<le> i \<Longrightarrow> i < 2 ^ 63 \<Longrightarrow> sqlite_bind_int i = Inr i"
  by (simp add: sqlite_bind_int_def)

lemma BloodRequestRepository_get_by_id_Inr:
  "BloodRequestRepository_get_by_id db i = Inr found \<Longrightarrow>
   - (2 ^ 63) \<le> i \<and> i < 2 ^ 63 \<and>
   found = find (\<lambda>r. BloodRequest.request_id r = Some i) (blood_requests db)"
  by (auto simp: BloodRequestRepository_get_by_id_def sqlite_bind_int_def split: if_splits)

lemma DonorRepository_get_by_id_Inr:
  "DonorRepository_get_by_id db i = Inr found \<Longrightarrow>
   - (2 ^ 63) \<le> i \<and> i < 2 ^ 63 \<and>
   found = find (\<lambda>d. Donor.donor_id d = Some i) (donors db)"
  by (auto simp: DonorRepository_get_by_id_def sqlite_bind_int_def split: if_splits)

text \<open>
  An identifier of \<open>2 ^ 63\<close> or more cannot be bound as an SQL parameter. The lookup
  raises, and the service reports a failed search: a third kind of failure on an
  identifier that resolves to nothing, again without "not found" in its message.
\<close>

lemma find_by_request_id_out_of_range:
  assumes "2 ^ 63 \<le> rid"
  shows "find_matching_donors_by_request_id db rid cem limit =
     Inl (MatchingServiceError
            (''Failed to find matching donors: Failed to retrieve blood request: '' @
             ''Python int too large to convert to SQLite INTEGER''))"
proof -
  have "(0 :: int) < 2 ^ 63" by simp
  with assms have "0 < rid" by linarith
  with assms show ?thesis
    by (simp add: find_matching_donors_by_request_id_def BloodRequestRepository_get_by_id_def
        sqlite_bind_int_def)
qed

lemma out_of_range_message_not_found:
  "\<not> is_not_found
       (MatchingServiceError
          (''Failed to find matching donors: Failed to retrieve blood request: '' @
           ''Python int too large to convert to SQLite INTEGER''))"
  by (simp add: is_not_found_def lower_def lower_char_def)

text \<open>
  C3, as stated: whenever the identifier does not resolve to a stored blood request,
  \<^verbatim>\<open>find_matching_donors_by_request_id\<close> fails with a not-found error. It fails on the
  identifier 0 (and on every negative one): the guard \<^verbatim>\<open>request_id <= 0\<close> rejects it before
  the store is read, with a message that the HTTP layer does not classify as not found.
\<close>

theorem find_by_request_id_zero_not_found_counterexample:
  "BloodRequestRepository_get_by_id empty_store 0 = Inr None \<and>
   find_matching_donors_by_request_id empty_store 0 True None =
     Inl (MatchingServiceError
            ''Unexpected error: Blood request ID must be a positive integer'') \<and>
   \<not> is_not_found
        (MatchingServiceError
           ''Unexpected error: Blood request ID must be a positive integer'')"
  by (simp add: BloodRequestRepository_get_by_id_def sqlite_bind_int_def empty_store_def
      find_matching_donors_by_request_id_def request_id_message_not_found)

text \<open>
  C3, amended. For every \<open>rid \<le> 0\<close>, whatever the store holds,
  \<^verbatim>\<open>find_matching_donors_by_request_id\<close> raises the error "Blood request ID must be a positive
  integer". For every positive \<open>rid\<close> that the store can look up (an SQLite integer, below
  \<open>2 ^ 63\<close>) and that resolves to no stored request, it raises an error whose message
  contains "not found". In neither case does it return a list.
  \<^verbatim>\<open>find_requests_for_donor_by_id\<close> does the same for donor identifiers, with "Donor ID must
  be a positive integer".
\<close>

theorem find_by_id_unresolved_fails:
  "(rid \<le> 0 \<longrightarrow>
      find_matching_donors_by_request_id db rid cem limit =
        Inl (MatchingServiceError
               ''Unexpected error: Blood request ID must be a positive integer'')) \<and>
   (0 < rid \<and> rid < 2 ^ 63 \<and>
    find (\<lambda>r. BloodRequest.request_id r = Some rid) (blood_requests db) = None \<longrightarrow>
      BloodRequestRepository_get_by_id db rid = Inr None \<and>
      (\<exists>e. find_matching_donors_by_request_id db rid cem limit = Inl e \<and> is_not_found e)) \<and>
   (did \<le> 0 \<longrightarrow>
      find_requests_for_donor_by_id db did cem ao limit =
        Inl (MatchingServiceError ''Unexpected error: Donor ID must be a positive integer'')) \<and>
   (0 < did \<and> did < 2 ^ 63 \<and>
    find (\<lambda>d. Donor.donor_id d = Some did) (donors db) = None \<longrightarrow>
      DonorRepository_get_by_id db did = Inr None \<and>
      (\<exists>e. find_requests_for_donor_by_id db did cem ao limit = Inl e \<and> is_not_found e))"
proof (intro conjI impI)
  assume "rid \<le> 0"
  then show "find_matching_donors_by_request_id db rid cem limit =
        Inl (MatchingServiceError
               ''Unexpected error: Blood request ID must be a positive integer'')"
    by (simp add: find_matching_donors_by_request_id_def)
next
  assume h: "0 < rid \<and> rid < 2 ^ 63 \<and>
    find (\<lambda>r. BloodRequest.request_id r = Some rid) (blood_requests db) = None"
  then have b: "sqlite_bind_int rid = Inr rid" by (simp add: sqlite_bind_int_in_range)
  with h show g: "BloodRequestRepository_get_by_id db rid = Inr None"
    by (simp add: BloodRequestRepository_get_by_id_def)
  from h g show "\<exists>e. find_matching_donors_by_request_id db rid cem limit = Inl e \<and> is_not_found e"
    using is_not_found_msg[of "''Unexpected error: Blood request with ID ''" "str_int rid"]
    by (simp add: find_matching_donors_by_request_id_def)
next
  assume "did \<le> 0"
  then show "find_requests_for_donor_by_id db did cem ao limit =
        Inl (MatchingServiceError ''Unexpected error: Donor ID must be a positive integer'')"
    by (simp add: find_requests_for_donor_by_id_def)
next
  assume h: "0 < did \<and> did < 2 ^ 63 \<and>
    find (\<lambda>d. Donor.donor_id d = Some did) (donors db) = None"
  then have b: "sqlite_bind_int did = Inr did" by (simp add: sqlite_bind_int_in_range)
  with h show g: "DonorRepository_get_by_id db did = Inr None"
    by (simp add: DonorRepository_get_by_id_def)
  from h g show "\<exists>e. find_requests_for_donor_by_id db did cem ao limit = Inl e \<and> is_not_found e"
    using is_not_found_msg[of "''Unexpected error: Donor with ID ''" "str_int did"]
    by (simp add: find_requests_for_donor_by_id_def)
qed

lemma example_request_7_missing:
  "find (\<lambda>r. BloodRequest.request_id r = Some 7) (blood_requests example_store) = None"
  by code_simp

lemma example_donor_9_missing:
  "find (\<lambda>d. Donor.donor_id d = Some 9) (donors example_store) = None"
  by code_simp

lemma example_request_7_message:
  "find_matching_donors_by_request_id example_store 7 True None =
     Inl (MatchingServiceError ''Unexpected error: Blood request with ID 7 not found'')"
  by code_simp

lemma example_donor_9_message:
  "find_requests_for_donor_by_id example_store 9 True True None =
     Inl (MatchingServiceError ''Unexpected error: Donor with ID 9 not found'')"
  by code_simp

theorem find_by_id_unresolved_fails_witness:
  "(0 :: int) < 7 \<and> (7 :: int) < 2 ^ 63 \<and> (0 :: int) < 9 \<and> (9 :: int) < 2 ^ 63 \<and> (- 2 :: int) \<le> 0 \<and>
   BloodRequestRepository_get_by_id example_store 7 = Inr None \<and>
   find_matching_donors_by_request_id example_store 7 True None =
     Inl (MatchingServiceError ''Unexpected error: Blood request with ID 7 not found'') \<and>
   is_not_found (MatchingServiceError ''Unexpected error: Blood request with ID 7 not found'') \<and>
   DonorRepository_get_by_id example_store 9 = Inr None \<and>
   find_requests_for_donor_by_id example_store 9 True True None =
     Inl (MatchingServiceError ''Unexpected error: Donor with ID 9 not found'') \<and>
   is_not_found (MatchingServiceError ''Unexpected error: Donor with ID 9 not found'') \<and>
   find_matching_donors_by_request_id example_store (- 2) True None =
     Inl (MatchingServiceError
            ''Unexpected error: Blood request ID must be a positive integer'') \<and>
   find_requests_for_donor_by_id example_store (- 2) True True None =
     Inl (MatchingServiceError ''Unexpected error: Donor ID must be a positive integer'')"
  using find_by_id_unresolved_fails[of 7 example_store True None 9 True]
    find_by_id_unresolved_fails[of "- 2" example_store True None "- 2" True]
    example_request_7_missing example_donor_9_missing
    example_request_7_message example_donor_9_message
  by auto

text \<open>
  C4. For every stored blood request whose status is not "Active",
  \<^verbatim>\<open>find_matching_donors_by_request_id\<close> returns the empty list and raises nothing,
  whatever donors the store holds. Stored requests carry the identifiers that SQLite
  assigns, which are positive.
\<close>

theorem find_by_request_id_not_active_empty:
  assumes "BloodRequestRepository_get_by_id db rid = Inr (Some r)" and "0 < rid"
    and "BloodRequest.status r \<noteq> ''Active''"
  shows "find_matching_donors_by_request_id db rid cem limit = Inr []"
  using assms by (simp add: find_matching_donors_by_request_id_def)

lemma example_request_3_stored:
  "BloodRequestRepository_get_by_id example_store 3 = Inr (Some example_request_3)"
  by code_simp

lemma example_request_3_has_donors:
  "map_sum id length (find_matching_donors example_store example_request_3 False None) = Inr 4"
  by code_simp

text \<open>
  Request 3 is Fulfilled and asks for AB+, which all four stored donors can give; matched
  directly it has four candidates, matched by identifier it has none.
\<close>

theorem find_by_request_id_not_active_empty_witness:
  "BloodRequestRepository_get_by_id example_store 3 = Inr (Some example_request_3) \<and>
   BloodRequest.status example_request_3 = ''Fulfilled'' \<and>
   map_sum id length (find_matching_donors example_store example_request_3 False None) = Inr 4 \<and>
   find_matching_donors_by_request_id example_store 3 False None = Inr []"
proof -
  have s: "BloodRequest.status example_request_3 = ''Fulfilled''"
    by (simp add: example_request_3_def)
  then have "BloodRequest.status example_request_3 \<noteq> ''Active''" by simp
  from find_by_request_id_not_active_empty[OF example_request_3_stored _ this, of False None]
  have "find_matching_donors_by_request_id example_store 3 False None = Inr []" by simp
  with s example_request_3_stored example_request_3_has_donors show ?thesis by simp
qed

section \<open>Donors for a request\<close>

lemma create_match_info_Inr:
  assumes "get_compatible_blood_groups (BloodRequest.blood_group r) = Inr gs"
  shows "\<exists>m. create_match_info d r cem = Inr m \<and>
     (Donor.blood_group d \<in> set gs \<longrightarrow> good_match m)"
proof -
  from calculate_match_score_Inr[OF assms, of d cem] obtain s where
    s: "calculate_match_score d r cem = Inr s" "Donor.blood_group d \<in> set gs \<longrightarrow> 40 \<le> s"
    by blast
  show ?thesis
    by (simp add: create_match_info_def s is_blood_compatible_Inr[OF assms] good_match_def)
qed

lemma append_match_infos_good:
  assumes "get_compatible_blood_groups (BloodRequest.blood_group r) = Inr gs"
  shows "\<forall>d \<in> set ds. Donor.blood_group d \<in> set gs \<Longrightarrow> \<forall>m \<in> set acc. good_match m \<Longrightarrow>
     \<exists>res. append_match_infos r cem ds acc = Inr res \<and> (\<forall>m \<in> set res. good_match m)"
proof (induction ds arbitrary: acc)
  case Nil
  then show ?case by simp
next
  case (Cons d ds)
  from create_match_info_Inr[OF assms, of d cem] Cons.prems(1)
  obtain m where m: "create_match_info d r cem = Inr m" "good_match m"
    by auto
  have "\<forall>x \<in> set (acc @ [m]). good_match x" using Cons.prems(2) m(2) by auto
  with Cons.IH[of "acc @ [m]"] Cons.prems(1) m(1) show ?case by simp
qed

text \<open>Both store queries return donors of the blood group asked for and no others.\<close>

lemma search_by_blood_group_group:
  "g \<noteq> [] \<Longrightarrow> d \<in> set (search_by_blood_group db g) \<Longrightarrow> Donor.blood_group d = g"
  by (auto simp: search_by_blood_group_def DonorRepository_get_all_def filter_given_def
      set_sql_order_by_desc Let_def)

lemma search_by_blood_group_and_city_group:
  "g \<noteq> [] \<Longrightarrow> d \<in> set (search_by_blood_group_and_city db g c) \<Longrightarrow> Donor.blood_group d = g"
  by (auto simp: search_by_blood_group_and_city_def DonorRepository_get_all_def filter_given_def
      set_sql_order_by_desc Let_def split: if_splits)

lemma collect_matching_donors_good:
  assumes "get_compatible_blood_groups (BloodRequest.blood_group r) = Inr gs"
  shows "set gs' \<subseteq> set gs \<Longrightarrow> \<forall>m \<in> set acc. good_match m \<Longrightarrow>
     \<exists>res. collect_matching_donors db r cem gs' acc = Inr res \<and> (\<forall>m \<in> set res. good_match m)"
proof (induction gs' arbitrary: acc)
  case Nil
  then show ?case by simp
next
  case (Cons g gs')
  let ?ds = "if cem then search_by_blood_group_and_city db g (BloodRequest.city r)
             else search_by_blood_group db g"
  have g: "g \<in> set gs" "g \<noteq> []"
    using Cons.prems(1) get_compatible_nonempty_names[OF assms] by auto
  have "\<forall>d \<in> set ?ds. Donor.blood_group d \<in> set gs"
    using g search_by_blood_group_group search_by_blood_group_and_city_group by auto
  from append_match_infos_good[OF assms this Cons.prems(2), of cem]
  obtain acc' where acc': "append_match_infos r cem ?ds acc = Inr acc'"
    "\<forall>m \<in> set acc'. good_match m"
    by blast
  from Cons.IH[of acc'] Cons.prems(1) acc'(2)
  obtain res where "collect_matching_donors db r cem gs' acc' = Inr res"
    "\<forall>m \<in> set res. good_match m"
    by auto
  with acc'(1) show ?case by (simp add: Let_def)
qed

lemma find_matching_donors_Inl:
  "\<not> validate_blood_group (BloodRequest.blood_group r) \<Longrightarrow>
   \<exists>e. find_matching_donors db r cem limit = Inl e"
  using get_compatible_Inr_valid[of "BloodRequest.blood_group r"]
  by (cases "get_compatible_blood_groups (BloodRequest.blood_group r)")
     (auto simp: find_matching_donors_def)

lemma find_matching_donors_good:
  assumes "validate_blood_group (BloodRequest.blood_group r)"
  shows "\<exists>ms. find_matching_donors db r cem limit = Inr ms \<and> (\<forall>m \<in> set ms. good_match m)
     \<and> sorted_wrt (\<lambda>a b. DonorMatch.match_score b \<le> DonorMatch.match_score a) ms"
proof -
  from get_compatible_valid[OF assms] obtain gs where
    gs: "get_compatible_blood_groups (BloodRequest.blood_group r) = Inr gs" by blast
  from collect_matching_donors_good[OF gs, of gs "[]" db cem]
  obtain res where res: "collect_matching_donors db r cem gs [] = Inr res"
    "\<forall>m \<in> set res. good_match m"
    by auto
  have "\<forall>m \<in> set (apply_limit limit (py_sort_reverse DonorMatch.match_score res)). good_match m"
    using res(2) set_apply_limit[of limit "py_sort_reverse DonorMatch.match_score res"]
    by (auto simp: set_py_sort_reverse)
  moreover have "sorted_wrt (\<lambda>a b. DonorMatch.match_score b \<le> DonorMatch.match_score a)
      (apply_limit limit (py_sort_reverse DonorMatch.match_score res))"
    by (rule sorted_apply_limit) (rule sorted_py_sort_reverse)
  ultimately show ?thesis
    by (simp add: find_matching_donors_def gs res(1))
qed

lemma find_matching_donors_returned_good:
  assumes "find_matching_donors db r cem limit = Inr ms"
  shows "\<forall>m \<in> set ms. good_match m"
proof -
  from assms have "validate_blood_group (BloodRequest.blood_group r)"
    using find_matching_donors_Inl[of r db cem limit] by auto
  from find_matching_donors_good[OF this, of db cem limit] assms show ?thesis by auto
qed

lemma find_matching_donors_by_request_id_returned_good:
  assumes "find_matching_donors_by_request_id db rid cem limit = Inr ms"
  shows "\<forall>m \<in> set ms. good_match m"
proof (cases "BloodRequestRepository_get_by_id db rid")
  case (Inl e)
  with assms show ?thesis
    by (simp add: find_matching_donors_by_request_id_def split: if_splits)
next
  case (Inr found)
  show ?thesis
  proof (cases found)
    case None
    with assms Inr show ?thesis
      by (simp add: find_matching_donors_by_request_id_def split: if_splits)
  next
    case (Some q)
    show ?thesis
    proof (cases "rid \<le> 0 \<or> BloodRequest.status q \<noteq> ''Active''")
      case True
      with assms Inr Some show ?thesis
        by (auto simp: find_matching_donors_by_request_id_def split: if_splits)
    next
      case False
      with assms Inr Some
      have "service_except ''Failed to find matching donors: ''
              (find_matching_donors db q cem limit) = Inr ms"
        by (simp add: find_matching_donors_by_request_id_def)
      then have "find_matching_donors db q cem limit = Inr ms"
        by (cases "find_matching_donors db q cem limit") auto
      then show ?thesis by (rule find_matching_donors_returned_good)
    qed
  qed
qed

text \<open>
  C9. Every match record returned by \<^verbatim>\<open>find_matching_donors\<close>, and so by
  \<^verbatim>\<open>find_matching_donors_by_request_id\<close>, has \<^verbatim>\<open>blood_compatible\<close> true and a score of at
  least 40: donors are fetched only for the groups of the request's compatible set. The
  finder does return a list on every request whose blood group the validator admits.
\<close>

theorem find_matching_donors_compatible_40:
  "(\<forall>ms. find_matching_donors db r cem limit = Inr ms \<longrightarrow>
       (\<forall>m \<in> set ms. DonorMatch.blood_compatible m \<and> 40 \<le> DonorMatch.match_score m)) \<and>
   (\<forall>ms. find_matching_donors_by_request_id db rid cem limit = Inr ms \<longrightarrow>
       (\<forall>m \<in> set ms. DonorMatch.blood_compatible m \<and> 40 \<le> DonorMatch.match_score m)) \<and>
   (validate_blood_group (BloodRequest.blood_group r) \<longrightarrow>
       (\<exists>ms. find_matching_donors db r cem limit = Inr ms))"
  using find_matching_donors_returned_good[of db r cem limit]
    find_matching_donors_by_request_id_returned_good[of db rid cem limit]
    find_matching_donors_good[of r db cem limit]
  by (auto simp: good_match_def)

lemma example_request_1_donors:
  "map_sum id (map (\<lambda>m. (DonorInfo.donor_id (donor m), DonorMatch.match_score m)))
     (find_matching_donors example_store example_request_1 False None) =
   Inr [(Some 2, 100), (Some 1, 80), (Some 4, 50)]"
  by code_simp

lemma example_request_1_by_id:
  "find_matching_donors_by_request_id example_store 1 False None =
   find_matching_donors example_store example_request_1 False None"
  by code_simp

text \<open>
  Request 1 (A+, Delhi, Critical) against the example store: donors 2, 1 and 4 with scores
  100, 80 and 50; donor 3 (B+) is not fetched.
\<close>

theorem find_matching_donors_compatible_40_witness:
  "validate_blood_group (BloodRequest.blood_group example_request_1) \<and>
   (\<exists>ms. find_matching_donors example_store example_request_1 False None = Inr ms \<and>
         find_matching_donors_by_request_id example_store 1 False None = Inr ms \<and>
         map (\<lambda>m. (DonorInfo.donor_id (donor m), DonorMatch.match_score m)) ms =
           [(Some 2, 100), (Some 1, 80), (Some 4, 50)] \<and>
         (\<forall>m \<in> set ms. DonorMatch.blood_compatible m \<and> 40 \<le> DonorMatch.match_score m))"
proof -
  from example_request_1_donors obtain ms where
    ms: "find_matching_donors example_store example_request_1 False None = Inr ms"
    and ids: "map (\<lambda>m. (DonorInfo.donor_id (donor m), DonorMatch.match_score m)) ms =
           [(Some 2, 100), (Some 1, 80), (Some 4, 50)]"
    by (cases "find_matching_donors example_store example_request_1 False None") auto
  from find_matching_donors_compatible_40[of example_store example_request_1 False None 1] ms
  have "\<forall>m \<in> set ms. DonorMatch.blood_compatible m \<and> 40 \<le> DonorMatch.match_score m"
    by blast
  with ms ids example_request_1_by_id example_request_1_valid show ?thesis by auto
qed

section \<open>Requests for a donor\<close>

lemma create_request_match_info_priority:
  "create_request_match_info r d cem = Inr m \<Longrightarrow> priority_recorded m"
  by (auto simp: create_request_match_info_def priority_recorded_def Let_def split: sum.splits)

lemma create_request_match_info_Inr:
  assumes "validate_blood_group (BloodRequest.blood_group r)"
  shows "\<exists>m. create_request_match_info r d cem = Inr m"
proof -
  from get_compatible_valid[OF assms] obtain gs where
    gs: "get_compatible_blood_groups (BloodRequest.blood_group r) = Inr gs" by blast
  from calculate_match_score_Inr[OF gs, of d cem] obtain s where
    "calculate_match_score d r cem = Inr s" by blast
  then show ?thesis
    by (simp add: create_request_match_info_def is_blood_compatible_Inr[OF gs] Let_def)
qed

lemma append_request_match_infos_priority:
  "append_request_match_infos d cem rs acc = Inr res \<Longrightarrow>
   \<forall>m \<in> set acc. priority_recorded m \<Longrightarrow> \<forall>m \<in> set res. priority_recorded m"
proof (induction rs arbitrary: acc)
  case Nil
  then show ?case by simp
next
  case (Cons r rs)
  show ?case
  proof (cases "is_blood_compatible (Donor.blood_group d) (BloodRequest.blood_group r)")
    case (Inl e)
    with Cons.prems(1) show ?thesis by simp
  next
    case compat: (Inr c)
    show ?thesis
    proof (cases c)
      case False
      with compat Cons.prems(1) have "append_request_match_infos d cem rs acc = Inr res"
        by simp
      from Cons.IH[OF this Cons.prems(2)] show ?thesis .
    next
      case True
      show ?thesis
      proof (cases "create_request_match_info r d cem")
        case (Inl e)
        with compat True Cons.prems(1) show ?thesis by simp
      next
        case (Inr m)
        with compat True Cons.prems(1)
        have step: "append_request_match_infos d cem rs (acc @ [m]) = Inr res" by simp
        have "\<forall>x \<in> set (acc @ [m]). priority_recorded x"
          using Cons.prems(2) create_request_match_info_priority[OF Inr] by auto
        from Cons.IH[OF step this] show ?thesis .
      qed
    qed
  qed
qed

lemma append_request_match_infos_total:
  "\<forall>r \<in> set rs. validate_blood_group (BloodRequest.blood_group r) \<Longrightarrow>
   \<exists>res. append_request_match_infos d cem rs acc = Inr res"
proof (induction rs arbitrary: acc)
  case Nil
  then show ?case by simp
next
  case (Cons r rs)
  then have v: "validate_blood_group (BloodRequest.blood_group r)" by simp
  from is_blood_compatible_total[OF v, of "Donor.blood_group d"] obtain c where
    c: "is_blood_compatible (Donor.blood_group d) (BloodRequest.blood_group r) = Inr c" by blast
  from create_request_match_info_Inr[OF v, of d cem] obtain m where
    m: "create_request_match_info r d cem = Inr m" by blast
  from Cons.IH[of "acc @ [m]"] Cons.IH[of acc] Cons.prems c m show ?case by simp
qed

lemma compatible_requests_total:
  "\<forall>r \<in> set rs. validate_blood_group (BloodRequest.blood_group r) \<Longrightarrow>
   \<exists>res. compatible_requests bg rs = Inr res \<and> set res \<subseteq> set rs"
proof (induction rs)
  case Nil
  then show ?case by simp
next
  case (Cons r rs)
  then have v: "validate_blood_group (BloodRequest.blood_group r)" by simp
  from is_blood_compatible_total[OF v, of bg] obtain c where
    c: "is_blood_compatible bg (BloodRequest.blood_group r) = Inr c" by blast
  from Cons obtain rest where "compatible_requests bg rs = Inr rest" "set rest \<subseteq> set rs"
    by auto
  with c show ?case by auto
qed

lemma set_BloodRequestRepository_get_all:
  "set (BloodRequestRepository_get_all db filters) \<subseteq> set (blood_requests db)"
  by (auto simp: BloodRequestRepository_get_all_def set_sql_order_by_desc Let_def
      split: option.splits)

text \<open>The tuple key compares by priority first and by score on equal priorities.\<close>

lemma request_sort_key_le:
  "(request_sort_key b \<le> request_sort_key a) =
     (RequestMatch.urgency_priority b < RequestMatch.urgency_priority a \<or>
      (RequestMatch.urgency_priority b = RequestMatch.urgency_priority a \<and>
       RequestMatch.match_score b \<le> RequestMatch.match_score a))"
  by (auto simp: request_sort_key_def less_eq_prod_def)

lemma find_requests_for_donor_shape:
  assumes "find_requests_for_donor db d cem ao limit = Inr ms"
  shows "\<exists>rs xs. append_request_match_infos d cem rs [] = Inr xs \<and>
           ms = apply_limit limit (py_sort_reverse request_sort_key xs)"
  using assms unfolding find_requests_for_donor_def Let_def
  by (auto split: sum.splits if_splits)

lemma find_requests_for_donor_total:
  assumes "\<forall>r \<in> set (blood_requests db). validate_blood_group (BloodRequest.blood_group r)"
  shows "\<exists>ms. find_requests_for_donor db d cem ao limit = Inr ms"
proof -
  let ?fetched = "if cem
      then Inr (get_requests_by_blood_group_and_city db (Donor.blood_group d) (Donor.city d))
      else compatible_requests (Donor.blood_group d) (BloodRequestRepository_get_all db [])"
  have all: "\<And>f. \<forall>r \<in> set (BloodRequestRepository_get_all db f).
      validate_blood_group (BloodRequest.blood_group r)"
    using assms set_BloodRequestRepository_get_all by blast
  have "\<exists>rs. ?fetched = Inr rs \<and>
      (\<forall>r \<in> set rs. validate_blood_group (BloodRequest.blood_group r))"
  proof (cases cem)
    case True
    then show ?thesis using all by (simp add: get_requests_by_blood_group_and_city_def)
  next
    case False
    from compatible_requests_total[OF all[of "[]"], of "Donor.blood_group d"]
    obtain res where
      "compatible_requests (Donor.blood_group d) (BloodRequestRepository_get_all db []) = Inr res"
      "set res \<subseteq> set (BloodRequestRepository_get_all db [])" by blast
    with False all show ?thesis by auto
  qed
  then obtain rs where rs: "?fetched = Inr rs"
    "\<forall>r \<in> set rs. validate_blood_group (BloodRequest.blood_group r)"
    by blast
  let ?rs' = "if ao then filter (\<lambda>req. BloodRequest.status req = ''Active'') rs else rs"
  have "\<forall>r \<in> set ?rs'. validate_blood_group (BloodRequest.blood_group r)" using rs(2) by auto
  from append_request_match_infos_total[OF this, of d cem "[]"] obtain xs where
    "append_request_match_infos d cem ?rs' [] = Inr xs" by blast
  with rs(1) show ?thesis
    unfolding find_requests_for_donor_def Let_def by simp
qed

text \<open>
  C5. For every donor and every store, the list returned by \<^verbatim>\<open>find_requests_for_donor\<close> is
  in descending order of the pair (urgency priority, match score), compared
  lexicographically; the priority of each record is 4, 3, 2, 1 for the urgency Critical,
  High, Medium, Low it displays and 0 for any other. Hence a record of lower priority
  never precedes one of higher priority, whatever the scores. The finder returns a list
  on every store whose requests carry blood groups the schema admits.
\<close>

theorem find_requests_for_donor_sorted:
  "(\<forall>ms. find_requests_for_donor db d cem ao limit = Inr ms \<longrightarrow>
      sorted_wrt (\<lambda>a b. RequestMatch.urgency_priority b < RequestMatch.urgency_priority a \<or>
                        (RequestMatch.urgency_priority b = RequestMatch.urgency_priority a \<and>
                         RequestMatch.match_score b \<le> RequestMatch.match_score a)) ms \<and>
      sorted_wrt (\<lambda>a b. RequestMatch.urgency_priority b \<le> RequestMatch.urgency_priority a) ms \<and>
      (\<forall>m \<in> set ms. RequestMatch.urgency_priority m =
          (if RequestInfo.urgency (request m) = ''Critical'' then 4
           else if RequestInfo.urgency (request m) = ''High'' then 3
           else if RequestInfo.urgency (request m) = ''Medium'' then 2
           else if RequestInfo.urgency (request m) = ''Low'' then 1 else 0))) \<and>
   ((\<forall>r \<in> set (blood_requests db). validate_blood_group (BloodRequest.blood_group r)) \<longrightarrow>
      (\<exists>ms. find_requests_for_donor db d cem ao limit = Inr ms))"
proof (intro conjI allI impI)
  fix ms assume h: "find_requests_for_donor db d cem ao limit = Inr ms"
  from find_requests_for_donor_shape[OF h] obtain rs xs where
    xs: "append_request_match_infos d cem rs [] = Inr xs"
    and ms: "ms = apply_limit limit (py_sort_reverse request_sort_key xs)" by blast
  have "sorted_wrt (\<lambda>a b. request_sort_key b \<le> request_sort_key a) ms"
    unfolding ms by (rule sorted_apply_limit) (rule sorted_py_sort_reverse)
  then show lex:
    "sorted_wrt (\<lambda>a b. RequestMatch.urgency_priority b < RequestMatch.urgency_priority a \<or>
                        (RequestMatch.urgency_priority b = RequestMatch.urgency_priority a \<and>
                         RequestMatch.match_score b \<le> RequestMatch.match_score a)) ms"
    by (simp add: request_sort_key_le)
  show "sorted_wrt (\<lambda>a b. RequestMatch.urgency_priority b \<le> RequestMatch.urgency_priority a) ms"
    by (rule sorted_wrt_mono_rel[OF _ lex]) auto
  have "\<forall>m \<in> set xs. priority_recorded m"
    using append_request_match_infos_priority[OF xs] by simp
  then have "\<forall>m \<in> set ms. priority_recorded m"
    unfolding ms using set_apply_limit[of limit "py_sort_reverse request_sort_key xs"]
    by (auto simp: set_py_sort_reverse)
  then show "\<forall>m \<in> set ms. RequestMatch.urgency_priority m =
          (if RequestInfo.urgency (request m) = ''Critical'' then 4
           else if RequestInfo.urgency (request m) = ''High'' then 3
           else if RequestInfo.urgency (request m) = ''Medium'' then 2
           else if RequestInfo.urgency (request m) = ''Low'' then 1 else 0)"
    unfolding priority_recorded_def get_urgency_priority_cases by simp
next
  assume "\<forall>r \<in> set (blood_requests db). validate_blood_group (BloodRequest.blood_group r)"
  then show "\<exists>ms. find_requests_for_donor db d cem ao limit = Inr ms"
    by (rule find_requests_for_donor_total)
qed

lemma example_store_valid:
  "\<forall>r \<in> set (blood_requests example_store). validate_blood_group (BloodRequest.blood_group r)"
  by (simp add: example_store_def example_request_1_def example_request_2_def
      example_request_3_def example_request_4_def validate_blood_group_def
      valid_blood_groups_def)

lemma example_donor_1_requests:
  "map_sum id (map (\<lambda>m. (RequestInfo.request_id (request m), RequestMatch.urgency_priority m,
                          RequestMatch.match_score m)))
     (find_requests_for_donor example_store example_donor_1 False True None) =
   Inr [(Some 1, 4, 80), (Some 4, 3, 47), (Some 2, 1, 91)]"
  by code_simp

text \<open>
  Donor 1 (O-, Delhi) against the example store: the Low request 2 is an exact match in
  the donor's city with score 91 and still comes last, after the Critical request 1 (80)
  and the High request 4 (47).
\<close>

theorem find_requests_for_donor_sorted_witness:
  "list_all (\<lambda>r. validate_blood_group (BloodRequest.blood_group r))
     (blood_requests example_store) \<and>
   (\<exists>ms. find_requests_for_donor example_store example_donor_1 False True None = Inr ms \<and>
         map (\<lambda>m. (RequestInfo.request_id (request m), RequestMatch.urgency_priority m,
                    RequestMatch.match_score m)) ms =
           [(Some 1, 4, 80), (Some 4, 3, 47), (Some 2, 1, 91)] \<and>
         sorted_wrt (\<lambda>a b. RequestMatch.urgency_priority b \<le> RequestMatch.urgency_priority a) ms)"
proof -
  from example_donor_1_requests obtain ms where
    ms: "find_requests_for_donor example_store example_donor_1 False True None = Inr ms"
    and rows: "map (\<lambda>m. (RequestInfo.request_id (request m), RequestMatch.urgency_priority m,
                    RequestMatch.match_score m)) ms =
           [(Some 1, 4, 80), (Some 4, 3, 47), (Some 2, 1, 91)]"
    by (cases "find_requests_for_donor example_store example_donor_1 False True None") auto
  from find_requests_for_donor_sorted[of example_store example_donor_1 False True None] ms
  have "sorted_wrt (\<lambda>a b. RequestMatch.urgency_priority b \<le> RequestMatch.urgency_priority a) ms"
    by blast
  with ms rows example_store_valid show ?thesis by (auto simp: list_all_iff)
qed

section \<open>Statistics\<close>

lemma compute_match_rate_value:
  "compute_match_rate rnd w t =
     Inr (if 0 < t then rnd (rnd (real_of_int w / real_of_int t) * 100) else 0)"
  by (simp add: compute_match_rate_def py_truediv_def py_float_mul_int_def)

lemma count_potential_matches_fst:
  "count_potential_matches db rs (w, t) = Inr (w', t') \<Longrightarrow>
   w' = w + int (length (filter (has_potential_matches db) rs))"
proof (induction rs arbitrary: w t)
  case Nil
  then show ?case by simp
next
  case (Cons r rs)
  show ?case
  proof (cases "find_matching_donors db r False None")
    case (Inl e)
    with Cons.prems show ?thesis by simp
  next
    case (Inr ms)
    show ?thesis
    proof (cases "ms = []")
      case True
      with Inr Cons.prems have "count_potential_matches db rs (w, t) = Inr (w', t')" by simp
      from Cons.IH[OF this] Inr True show ?thesis by (simp add: has_potential_matches_def)
    next
      case False
      with Inr Cons.prems have
        "count_potential_matches db rs (w + 1, t + int (length ms)) = Inr (w', t')" by simp
      from Cons.IH[OF this] Inr False show ?thesis by (simp add: has_potential_matches_def)
    qed
  qed
qed

lemma find_matching_donors_total:
  "validate_blood_group (BloodRequest.blood_group r) \<Longrightarrow>
   \<exists>ms. find_matching_donors db r cem limit = Inr ms"
  using find_matching_donors_good by blast

lemma count_potential_matches_total:
  "\<forall>r \<in> set rs. validate_blood_group (BloodRequest.blood_group r) \<Longrightarrow>
   \<exists>p. count_potential_matches db rs acc = Inr p"
proof (induction rs arbitrary: acc)
  case Nil
  then show ?case by simp
next
  case (Cons r rs)
  obtain w t where acc: "acc = (w, t)" by (cases acc)
  from Cons.prems have "validate_blood_group (BloodRequest.blood_group r)" by simp
  from find_matching_donors_total[OF this, of db False None] obtain ms where
    ms: "find_matching_donors db r False None = Inr ms" by blast
  from Cons.IH[of "(w, t)"] Cons.IH[of "(w + 1, t + int (length ms))"] Cons.prems ms
  show ?case unfolding acc by simp
qed

lemma count_requests_with_matches_total:
  "\<forall>r \<in> set rs. validate_blood_group (BloodRequest.blood_group r) \<Longrightarrow>
   \<exists>k. count_requests_with_matches db rs n = Inr k"
proof (induction rs arbitrary: n)
  case Nil
  then show ?case by simp
next
  case (Cons r rs)
  from Cons.prems have "validate_blood_group (BloodRequest.blood_group r)" by simp
  from find_matching_donors_total[OF this, of db False None] obtain ms where
    ms: "find_matching_donors db r False None = Inr ms" by blast
  from Cons.IH[of "if ms \<noteq> [] then n + 1 else n"] Cons.prems ms
  show ?case by simp
qed

lemma urgency_statistics_total:
  "\<forall>r \<in> set active. validate_blood_group (BloodRequest.blood_group r) \<Longrightarrow>
   \<exists>res. urgency_statistics db active us acc = Inr res"
proof (induction us arbitrary: acc)
  case Nil
  then show ?case by simp
next
  case (Cons u us)
  let ?ur = "filter (\<lambda>r. BloodRequest.urgency r = u) active"
  have "\<forall>r \<in> set ?ur. validate_blood_group (BloodRequest.blood_group r)"
    using Cons.prems by simp
  from count_requests_with_matches_total[OF this, of db 0] obtain k where
    k: "count_requests_with_matches db ?ur 0 = Inr k" by blast
  from Cons.IH[OF Cons.prems] k show ?case by (simp add: Let_def)
qed

lemma get_matching_statistics_shape:
  assumes "get_matching_statistics rnd db = Inr st"
  shows "\<exists>w t. count_potential_matches db (get_active_requests db) (0, 0) = Inr (w, t) \<and>
     total_active_requests st = int (length (get_active_requests db)) \<and>
     requests_with_potential_matches st = w \<and>
     compute_match_rate rnd w (int (length (get_active_requests db))) = Inr (match_rate st)"
  using assms unfolding get_matching_statistics_def Let_def
  by (auto split: sum.splits prod.splits)

lemma get_matching_statistics_total:
  assumes "\<forall>r \<in> set (blood_requests db). validate_blood_group (BloodRequest.blood_group r)"
  shows "\<exists>st. get_matching_statistics rnd db = Inr st"
proof -
  have act: "\<forall>r \<in> set (get_active_requests db).
      validate_blood_group (BloodRequest.blood_group r)"
    using assms set_BloodRequestRepository_get_all unfolding get_active_requests_def by blast
  from count_potential_matches_total[OF act, of db "(0, 0)"] obtain w t where
    p: "count_potential_matches db (get_active_requests db) (0, 0) = Inr (w, t)" by force
  from urgency_statistics_total[OF act, of db "[''Critical'', ''High'', ''Medium'', ''Low'']" "[]"]
  obtain us where us: "urgency_statistics db (get_active_requests db)
      [''Critical'', ''High'', ''Medium'', ''Low''] [] = Inr us" by blast
  show ?thesis
    unfolding get_matching_statistics_def Let_def
    by (simp add: p us compute_match_rate_value del: urgency_statistics.simps)
qed

text \<open>
  C6. The match-rate step of \<^verbatim>\<open>get_matching_statistics\<close> never raises: it returns
  \<^verbatim>\<open>requests_with_matches / total_active_requests * 100\<close> when the count of active requests
  is positive and 0 otherwise, so the division is reached only with a non-zero divisor.
  The division and the multiplication are Python's: each returns the exact result
  rounded to a double, whatever the rounding \<open>rnd\<close> is. In the returned statistics
  \<^verbatim>\<open>match_rate\<close> is that value of \<^verbatim>\<open>requests_with_potential_matches\<close> and
  \<^verbatim>\<open>total_active_requests\<close> when there is an active request, and 0 when there is none; the
  two counts are the number of active requests and the number of those with a non-empty
  match list. The statistics are returned on every store whose requests carry blood
  groups the schema admits.
\<close>

theorem get_matching_statistics_match_rate:
  "compute_match_rate rnd w t =
     Inr (if 0 < t then rnd (rnd (real_of_int w / real_of_int t) * 100) else 0) \<and>
   (\<forall>st. get_matching_statistics rnd db = Inr st \<longrightarrow>
      total_active_requests st = int (length (get_active_requests db)) \<and>
      requests_with_potential_matches st =
        int (length (filter (\<lambda>r. case find_matching_donors db r False None of
                                  Inl e \<Rightarrow> False | Inr ms \<Rightarrow> ms \<noteq> [])
                       (get_active_requests db))) \<and>
      match_rate st =
        (if get_active_requests db = [] then 0
         else rnd (rnd (real_of_int (requests_with_potential_matches st) /
                        real_of_int (total_active_requests st)) * 100))) \<and>
   ((\<forall>r \<in> set (blood_requests db). validate_blood_group (BloodRequest.blood_group r)) \<longrightarrow>
      (\<exists>st. get_matching_statistics rnd db = Inr st))"
proof (intro conjI allI impI)
  show "compute_match_rate rnd w t =
     Inr (if 0 < t then rnd (rnd (real_of_int w / real_of_int t) * 100) else 0)"
    by (rule compute_match_rate_value)
next
  fix st assume h: "get_matching_statistics rnd db = Inr st"
  from get_matching_statistics_shape[OF h] obtain w' t' where
    p: "count_potential_matches db (get_active_requests db) (0, 0) = Inr (w', t')"
    and ta: "total_active_requests st = int (length (get_active_requests db))"
    and rw: "requests_with_potential_matches st = w'"
    and mr: "compute_match_rate rnd w' (int (length (get_active_requests db))) =
      Inr (match_rate st)"
    by blast
  show "total_active_requests st = int (length (get_active_requests db))" by (rule ta)
  from count_potential_matches_fst[OF p] rw
  show "requests_with_potential_matches st =
        int (length (filter (\<lambda>r. case find_matching_donors db r False None of
                                  Inl e \<Rightarrow> False | Inr ms \<Rightarrow> ms \<noteq> [])
                       (get_active_requests db)))"
    by (simp add: has_potential_matches_def[abs_def])
  from mr show "match_rate st =
        (if get_active_requests db = [] then 0
         else rnd (rnd (real_of_int (requests_with_potential_matches st) /
                        real_of_int (total_active_requests st)) * 100))"
    by (auto simp: compute_match_rate_value rw ta split: if_splits)
next
  assume "\<forall>r \<in> set (blood_requests db). validate_blood_group (BloodRequest.blood_group r)"
  then show "\<exists>st. get_matching_statistics rnd db = Inr st"
    by (rule get_matching_statistics_total)
qed

lemma example_two_donors_valid:
  "\<forall>r \<in> set (blood_requests example_store_two_donors).
     validate_blood_group (BloodRequest.blood_group r)"
  by (simp add: example_store_two_donors_def example_request_1_def example_request_2_def
      example_request_3_def example_request_4_def validate_blood_group_def
      valid_blood_groups_def)

lemma example_active_count:
  "int (length (get_active_requests example_store_two_donors)) = 3"
  by code_simp

lemma example_with_matches_count:
  "int (length (filter (\<lambda>r. case find_matching_donors example_store_two_donors r False None of
                              Inl e \<Rightarrow> False | Inr ms \<Rightarrow> ms \<noteq> [])
                   (get_active_requests example_store_two_donors))) = 2"
  by code_simp

lemma example_without_requests_active:
  "get_active_requests example_store_without_requests = []"
  by code_simp

text \<open>
  With no request in the store the statistics are returned and the rate is 0, under any
  rounding. With the A+ and the B+ donor only, two of the three active requests have
  candidates, and the rate is the double nearest to 100 times the double nearest to 2/3,
  not the real number 200/3.
\<close>

theorem get_matching_statistics_match_rate_witness:
  "get_active_requests example_store_without_requests = [] \<and>
   (\<forall>rnd. \<exists>st. get_matching_statistics rnd example_store_without_requests = Inr st \<and>
         total_active_requests st = 0 \<and> match_rate st = 0) \<and>
   list_all (\<lambda>r. validate_blood_group (BloodRequest.blood_group r))
     (blood_requests example_store_two_donors) \<and>
   (\<forall>rnd. \<exists>st. get_matching_statistics rnd example_store_two_donors = Inr st \<and>
         total_active_requests st = 3 \<and> requests_with_potential_matches st = 2 \<and>
         match_rate st = rnd (rnd (2 / 3) * 100))"
proof -
  have v0: "\<forall>r \<in> set (blood_requests example_store_without_requests).
      validate_blood_group (BloodRequest.blood_group r)"
    by (simp add: example_store_without_requests_def)
  have a: "\<exists>st. get_matching_statistics rnd example_store_without_requests = Inr st \<and>
         total_active_requests st = 0 \<and> match_rate st = 0" for rnd
  proof -
    note c6 = get_matching_statistics_match_rate[of rnd 0 0 example_store_without_requests]
    from c6 v0 obtain st where
      st: "get_matching_statistics rnd example_store_without_requests = Inr st" by blast
    with c6 example_without_requests_active
    have "total_active_requests st = 0" "match_rate st = 0" by auto
    with st show ?thesis by blast
  qed
  have b: "\<exists>st. get_matching_statistics rnd example_store_two_donors = Inr st \<and>
         total_active_requests st = 3 \<and> requests_with_potential_matches st = 2 \<and>
         match_rate st = rnd (rnd (2 / 3) * 100)" for rnd
  proof -
    note c6 = get_matching_statistics_match_rate[of rnd 0 0 example_store_two_donors]
    from c6 example_two_donors_valid obtain st where
      st: "get_matching_statistics rnd example_store_two_donors = Inr st" by blast
    with c6 example_active_count example_with_matches_count
    have t: "total_active_requests st = 3" and w: "requests_with_potential_matches st = 2"
      by auto
    from t example_active_count have ne: "get_active_requests example_store_two_donors \<noteq> []"
      by auto
    from c6 st ne have "match_rate st =
        rnd (rnd (real_of_int (requests_with_potential_matches st) /
                  real_of_int (total_active_requests st)) * 100)" by auto
    with t w have "match_rate st = rnd (rnd (2 / 3) * 100)" by simp
    with st t w show ?thesis by blast
  qed
  from a b example_two_donors_valid example_without_requests_active
  show ?thesis by (auto simp: list_all_iff)
qed

section \<open>The limit\<close>

lemma find_matching_donors_limit:
  "find_matching_donors db r cem limit =
     (case find_matching_donors db r cem None of
        Inl e \<Rightarrow> Inl e
      | Inr full \<Rightarrow> Inr (apply_limit limit full))"
  by (simp add: find_matching_donors_def apply_limit_def split: sum.splits)

lemma find_requests_for_donor_limit:
  "find_requests_for_donor db d cem ao limit =
     (case find_requests_for_donor db d cem ao None of
        Inl e \<Rightarrow> Inl e
      | Inr full \<Rightarrow> Inr (apply_limit limit full))"
  by (cases cem; cases ao)
     (simp_all add: find_requests_for_donor_def apply_limit_def Let_def split: sum.splits)

text \<open>
  C10. With \<^verbatim>\<open>limit = 0\<close> both finders return what they return without a limit, the whole
  sorted list. With a negative limit \<open>n\<close> they return the sorted list without its last
  \<open>-n\<close> entries: the entries are dropped from the end.
\<close>

theorem limit_zero_and_negative:
  "find_matching_donors db r cem (Some 0) = find_matching_donors db r cem None \<and>
   find_requests_for_donor db d cem ao (Some 0) = find_requests_for_donor db d cem ao None \<and>
   (\<forall>n full. n < 0 \<and> find_matching_donors db r cem None = Inr full \<longrightarrow>
      sorted_wrt (\<lambda>a b. DonorMatch.match_score b \<le> DonorMatch.match_score a) full \<and>
      find_matching_donors db r cem (Some n) = Inr (take (length full - nat (- n)) full)) \<and>
   (\<forall>n full. n < 0 \<and> find_requests_for_donor db d cem ao None = Inr full \<longrightarrow>
      sorted_wrt (\<lambda>a b. request_sort_key b \<le> request_sort_key a) full \<and>
      find_requests_for_donor db d cem ao (Some n) = Inr (take (length full - nat (- n)) full))"
proof (intro conjI allI impI)
  show "find_matching_donors db r cem (Some 0) = find_matching_donors db r cem None"
    by (simp add: find_matching_donors_limit[of db r cem "Some 0"] apply_limit_def
        split: sum.splits)
  show "find_requests_for_donor db d cem ao (Some 0) = find_requests_for_donor db d cem ao None"
    by (simp add: find_requests_for_donor_limit[of db d cem ao "Some 0"] apply_limit_def
        split: sum.splits)
next
  fix n :: int and full
  assume h: "n < 0 \<and> find_matching_donors db r cem None = Inr full"
  then have v: "validate_blood_group (BloodRequest.blood_group r)"
    using find_matching_donors_Inl[of r db cem None] by auto
  from find_matching_donors_good[OF v, of db cem None] h
  show "sorted_wrt (\<lambda>a b. DonorMatch.match_score b \<le> DonorMatch.match_score a) full" by auto
  from h show "find_matching_donors db r cem (Some n) = Inr (take (length full - nat (- n)) full)"
    by (simp add: find_matching_donors_limit[of db r cem "Some n"] apply_limit_neg)
next
  fix n :: int and full
  assume h: "n < 0 \<and> find_requests_for_donor db d cem ao None = Inr full"
  then have "find_requests_for_donor db d cem ao None = Inr full" by simp
  from find_requests_for_donor_shape[OF this] obtain xs where
    "full = apply_limit None (py_sort_reverse request_sort_key xs)" by blast
  then show "sorted_wrt (\<lambda>a b. request_sort_key b \<le> request_sort_key a) full"
    by (simp add: sorted_apply_limit sorted_py_sort_reverse)
  from h show
    "find_requests_for_donor db d cem ao (Some n) = Inr (take (length full - nat (- n)) full)"
    by (simp add: find_requests_for_donor_limit[of db d cem ao "Some n"] apply_limit_neg)
qed

lemma example_request_1_donors_limit_minus_1:
  "map_sum id (map (\<lambda>m. (DonorInfo.donor_id (donor m), DonorMatch.match_score m)))
     (find_matching_donors example_store example_request_1 False (Some (- 1))) =
   Inr [(Some 2, 100), (Some 1, 80)]"
  by code_simp

lemma example_donor_1_requests_limit_minus_2:
  "map_sum id (map (\<lambda>m. (RequestInfo.request_id (request m), RequestMatch.urgency_priority m,
                          RequestMatch.match_score m)))
     (find_requests_for_donor example_store example_donor_1 False True (Some (- 2))) =
   Inr [(Some 1, 4, 80)]"
  by code_simp

text \<open>
  Request 1 has the candidates 2, 1, 4 in score order; the limit -1 returns 2 and 1.
  Donor 1 has the requests 1, 4, 2 in key order; the limit -2 returns request 1 alone.
\<close>

theorem limit_zero_and_negative_witness:
  "(- 1 :: int) < 0 \<and> (- 2 :: int) < 0 \<and>
   (\<exists>full. find_matching_donors example_store example_request_1 False None = Inr full \<and>
      map (\<lambda>m. (DonorInfo.donor_id (donor m), DonorMatch.match_score m)) full =
        [(Some 2, 100), (Some 1, 80), (Some 4, 50)] \<and>
      find_matching_donors example_store example_request_1 False (Some (- 1)) =
        Inr (take 2 full)) \<and>
   (\<exists>full. find_requests_for_donor example_store example_donor_1 False True None = Inr full \<and>
      map (\<lambda>m. (RequestInfo.request_id (request m), RequestMatch.urgency_priority m,
                 RequestMatch.match_score m)) full =
        [(Some 1, 4, 80), (Some 4, 3, 47), (Some 2, 1, 91)] \<and>
      find_requests_for_donor example_store example_donor_1 False True (Some (- 2)) =
        Inr (take 1 full))"
proof -
  from example_request_1_donors obtain ds where
    ds: "find_matching_donors example_store example_request_1 False None = Inr ds"
    and dmap: "map (\<lambda>m. (DonorInfo.donor_id (donor m), DonorMatch.match_score m)) ds =
        [(Some 2, 100), (Some 1, 80), (Some 4, 50)]"
    by (cases "find_matching_donors example_store example_request_1 False None") auto
  from example_donor_1_requests obtain rs where
    rs: "find_requests_for_donor example_store example_donor_1 False True None = Inr rs"
    and rmap: "map (\<lambda>m. (RequestInfo.request_id (request m), RequestMatch.urgency_priority m,
                 RequestMatch.match_score m)) rs =
        [(Some 1, 4, 80), (Some 4, 3, 47), (Some 2, 1, 91)]"
    by (cases "find_requests_for_donor example_store example_donor_1 False True None") auto
  from dmap have "length (map (\<lambda>m. (DonorInfo.donor_id (donor m), DonorMatch.match_score m)) ds) = 3"
    by simp
  then have dl: "length ds = 3" by simp
  from rmap have "length (map (\<lambda>m. (RequestInfo.request_id (request m),
      RequestMatch.urgency_priority m, RequestMatch.match_score m)) rs) = 3"
    by simp
  then have rl: "length rs = 3" by simp
  note neg = limit_zero_and_negative[of example_store example_request_1 False example_donor_1 True,
      THEN conjunct2, THEN conjunct2]
  from neg[THEN conjunct1, rule_format, of "- 1" ds] ds dl
  have d1: "find_matching_donors example_store example_request_1 False (Some (- 1)) =
       Inr (take 2 ds)" by simp
  from neg[THEN conjunct2, rule_format, of "- 2" rs] rs rl
  have r1: "find_requests_for_donor example_store example_donor_1 False True (Some (- 2)) =
       Inr (take 1 rs)" by simp
  from ds dmap d1 rs rmap r1 show ?thesis by auto
qed

end
